theory Spec2Isabelle
  imports Complex_Main "HOL-Library.AList" "HOL-Library.Multiset"
begin

section \<open>Python values\<close>

text \<open>
  The match scores of \<open>fabric_matcher.py\<close> are modelled as exact rationals: every
  comparison, \<open>min\<close> and \<open>max\<close> of the source is the same operation here, and the
  arithmetic on scores is carried out without rounding.
\<close>

datatype py_error = ZeroDivisionError | ValueError | TypeError

definition truediv :: "rat \<Rightarrow> rat \<Rightarrow> py_error + rat" where
  "truediv a b = (if b = 0 then Inl ZeroDivisionError else Inr (a / b))"

text \<open>
  Prices, rates, quantities and amounts, and what is computed from them, are IEEE 754
  doubles. A finite double is the rational it denotes; an operation computes the exact
  result and rounds it to the nearest double, ties to even, with gradual underflow below
  \<open>2^-1022\<close> and overflow to an infinity from \<open>2^1024 - 2^970\<close> on. The values that
  are read from an invoice or a catalog are finite doubles, so the second operand of the
  operations below is a rational.
\<close>

datatype double = Fin rat | PInf | NInf | NaN

definition pow2 :: "int \<Rightarrow> rat" where
  "pow2 e = (if 0 \<le> e then 2 ^ nat e else 1 / 2 ^ nat (- e))"

text \<open>
  The positive rational \<open>n / d\<close> is brought to the form \<open>(n' / d') * 2^e\<close> with
  \<open>2^52 \<le> n' / d' < 2^53\<close>, or with \<open>e = -1074\<close> and \<open>n' / d' < 2^52\<close> in the
  subnormal range; \<open>2^52 = 4503599627370496\<close>.
\<close>

function scale_down :: "int \<Rightarrow> int \<Rightarrow> int \<Rightarrow> int \<times> int \<times> int" where
  "scale_down n d e =
     (if 0 < d \<and> 9007199254740992 * d \<le> n then scale_down n (2 * d) (e + 1) else (n, d, e))"
  by pat_completeness auto
termination
proof (relation "measure (\<lambda>(n, d, e). nat (n - d))")
  show "wf (measure (\<lambda>(n::int, d::int, e::int). nat (n - d)))"
    by simp
next
  fix n d e :: int
  assume "0 < d \<and> 9007199254740992 * d \<le> n"
  then show "((n, 2 * d, e + 1), (n, d, e)) \<in> measure (\<lambda>(n, d, e). nat (n - d))"
    by simp
qed

function scale_up :: "int \<Rightarrow> int \<Rightarrow> int \<Rightarrow> int \<times> int \<times> int" where
  "scale_up n d e =
     (if n < 4503599627370496 * d \<and> - 1074 < e then scale_up (2 * n) d (e - 1) else (n, d, e))"
  by pat_completeness auto
termination
  by (relation "measure (\<lambda>(n, d, e). nat (e + 1074))") auto

definition round_half_even :: "int \<Rightarrow> int \<Rightarrow> int" where
  "round_half_even n d =
     (let f = n div d; r = n mod d
      in if 2 * r < d then f else if d < 2 * r then f + 1 else if even f then f else f + 1)"

definition round_double :: "rat \<Rightarrow> double" where
  "round_double x =
     (if x = 0 then Fin 0
      else
        (let (n0, d0) = quotient_of \<bar>x\<bar>;
             (n1, d1, e1) = scale_down n0 d0 0;
             (n2, d2, e2) = scale_up n1 d1 e1;
             m = round_half_even n2 d2
         in if 971 < e2 \<or> (e2 = 971 \<and> m = 9007199254740992)
            then (if 0 < x then PInf else NInf)
            else Fin (if 0 < x then of_int m * pow2 e2 else - (of_int m * pow2 e2))))"

text \<open>\<open>a - b\<close>, \<open>abs(d)\<close>, \<open>d / b\<close> and \<open>d * c\<close> on doubles.\<close>

definition fsub :: "rat \<Rightarrow> rat \<Rightarrow> double" where
  "fsub a b = round_double (a - b)"

definition fabs :: "double \<Rightarrow> double" where
  "fabs d = (case d of Fin v \<Rightarrow> Fin \<bar>v\<bar> | PInf \<Rightarrow> PInf | NInf \<Rightarrow> PInf | NaN \<Rightarrow> NaN)"

definition fdiv :: "double \<Rightarrow> rat \<Rightarrow> py_error + double" where
  "fdiv d b =
     (if b = 0 then Inl ZeroDivisionError
      else Inr (case d of
                  Fin a \<Rightarrow> round_double (a / b)
                | PInf \<Rightarrow> if 0 < b then PInf else NInf
                | NInf \<Rightarrow> if 0 < b then NInf else PInf
                | NaN \<Rightarrow> NaN))"

definition fmul :: "double \<Rightarrow> rat \<Rightarrow> double" where
  "fmul d c =
     (case d of
        Fin a \<Rightarrow> round_double (a * c)
      | PInf \<Rightarrow> if 0 < c then PInf else if c < 0 then NInf else NaN
      | NInf \<Rightarrow> if 0 < c then NInf else if c < 0 then PInf else NaN
      | NaN \<Rightarrow> NaN)"

text \<open>\<open>d <= c\<close> for a double and a finite bound; every comparison with NaN is false.\<close>

definition d_le :: "double \<Rightarrow> rat \<Rightarrow> bool" where
  "d_le d c = (case d of Fin v \<Rightarrow> v \<le> c | NInf \<Rightarrow> True | PInf \<Rightarrow> False | NaN \<Rightarrow> False)"

text \<open>
  The truth value of a float that may be \<open>None\<close> (\<open>if x:\<close>): false for \<open>None\<close> and
  for zero.
\<close>

definition truthy :: "rat option \<Rightarrow> bool" where
  "truthy x = (case x of None \<Rightarrow> False | Some v \<Rightarrow> v \<noteq> 0)"

definition truthy_d :: "double option \<Rightarrow> bool" where
  "truthy_d x = (case x of None \<Rightarrow> False | Some d \<Rightarrow> d \<noteq> Fin 0)"

section \<open>Text\<close>

text \<open>
  A Python \<open>str\<close> is modelled as a \<open>string\<close> whose characters are the code points
  below 256; the character tables of \<open>str.lower\<close>, \<open>str.isspace\<close> and of the
  classes \<open>\d\<close>, \<open>\w\<close>, \<open>\s\<close> of \<open>re\<close> are Python's on that range.
\<close>

definition code :: "char \<Rightarrow> int" where
  "code c = of_char c"

definition between :: "int \<Rightarrow> int \<Rightarrow> int \<Rightarrow> bool" where
  "between lo hi n = (lo \<le> n \<and> n \<le> hi)"

definition is_digit :: "char \<Rightarrow> bool" where
  "is_digit c = between 48 57 (code c)"

definition is_space :: "char \<Rightarrow> bool" where
  "is_space c = (let n = code c in between 9 13 n \<or> between 28 32 n \<or> n = 133 \<or> n = 160)"

definition is_upper_AZ :: "char \<Rightarrow> bool" where
  "is_upper_AZ c = between 65 90 (code c)"

definition is_lower_az :: "char \<Rightarrow> bool" where
  "is_lower_az c = between 97 122 (code c)"

definition is_alpha_ascii :: "char \<Rightarrow> bool" where
  "is_alpha_ascii c = (let n = code c in between 65 90 n \<or> between 97 122 n)"

definition is_word :: "char \<Rightarrow> bool" where
  "is_word c =
     (let n = code c
      in between 48 57 n \<or> between 65 90 n \<or> between 97 122 n \<or> n = 95 \<or> n = 170
         \<or> n = 178 \<or> n = 179 \<or> n = 181 \<or> between 185 186 n \<or> between 188 190 n
         \<or> between 192 214 n \<or> between 216 246 n \<or> between 248 255 n)"

text \<open>
  The upper-case letters below 256 are 65 to 90 and 192 to 222 without 215; the
  lower-case letter is 32 higher, which sets the bit of value 32.
\<close>

definition lower_char :: "char \<Rightarrow> char" where
  "lower_char c =
     (let n = code c
      in if between 65 90 n \<or> (between 192 222 n \<and> n \<noteq> 215)
         then (case c of Char b0 b1 b2 b3 b4 b5 b6 b7 \<Rightarrow> Char b0 b1 b2 b3 b4 True b6 b7)
         else c)"

definition upper_char :: "char \<Rightarrow> char" where
  "upper_char c =
     (let n = code c
      in if between 97 122 n \<or> (between 224 254 n \<and> n \<noteq> 247)
         then (case c of Char b0 b1 b2 b3 b4 b5 b6 b7 \<Rightarrow> Char b0 b1 b2 b3 b4 False b6 b7)
         else c)"

definition lower :: "string \<Rightarrow> string" where
  "lower s = map lower_char s"

definition lstrip :: "string \<Rightarrow> string" where
  "lstrip s = dropWhile is_space s"

definition rstrip :: "string \<Rightarrow> string" where
  "rstrip s = rev (dropWhile is_space (rev s))"

definition strip :: "string \<Rightarrow> string" where
  "strip s = rstrip (lstrip s)"

text \<open>\<open>s.split()\<close>: the maximal runs of characters that are not whitespace.\<close>

fun split_ws :: "string \<Rightarrow> string \<Rightarrow> string list" where
  "split_ws cur [] = (if cur = [] then [] else [rev cur])"
| "split_ws cur (c # cs) =
     (if is_space c then (if cur = [] then split_ws [] cs else rev cur # split_ws [] cs)
      else split_ws (c # cur) cs)"

definition split :: "string \<Rightarrow> string list" where
  "split s = split_ws [] s"

text \<open>\<open>s.split(sep)\<close> for a one-character separator: empty fields are kept.\<close>

fun split_on :: "char \<Rightarrow> string \<Rightarrow> string \<Rightarrow> string list" where
  "split_on sep cur [] = [rev cur]"
| "split_on sep cur (c # cs) =
     (if c = sep then rev cur # split_on sep [] cs else split_on sep (c # cur) cs)"

definition split_lines :: "string \<Rightarrow> string list" where
  "split_lines text = split_on (CHR 0x0A) [] text"

text \<open>\<open>a in b\<close> on strings: \<open>a\<close> occurs in \<open>b\<close> as a contiguous run.\<close>

fun starts_with :: "string \<Rightarrow> string \<Rightarrow> bool" where
  "starts_with [] s = True"
| "starts_with (a # as) [] = False"
| "starts_with (a # as) (c # cs) = (a = c \<and> starts_with as cs)"

fun contains :: "string \<Rightarrow> string \<Rightarrow> bool" where
  "contains a [] = (a = [])"
| "contains a (c # cs) = (starts_with a (c # cs) \<or> contains a cs)"

section \<open>Regular expressions\<close>

text \<open>
  The fragment of Python's \<open>re\<close> that the patterns of the source use. A position in the
  subject is the text to its left, reversed, and the text to its right. \<open>rmatch\<close> lists the
  positions at which a match that starts at the given one can end, in the order in which
  the backtracking matcher of \<open>re\<close> tries them: greedy repetition longest first, the
  alternatives of \<open>|\<close> left to right. The first of the list is the match \<open>re\<close> reports.
  The flag is \<open>re.I\<close>.
\<close>

datatype cls = In "char \<Rightarrow> bool" | NotIn "char \<Rightarrow> bool"

datatype regex =
    Lit string
  | Rep cls nat "nat option"
  | Seq regex regex
  | Alt regex regex
  | Opt regex
  | Grp nat regex
  | WordB
  | Bol
  | Eol

type_synonym mstate = "string \<times> string \<times> (nat \<times> string) list"

definition cls_pos :: "bool \<Rightarrow> (char \<Rightarrow> bool) \<Rightarrow> char \<Rightarrow> bool" where
  "cls_pos ic p c = (if ic then p c \<or> p (lower_char c) \<or> p (upper_char c) else p c)"

fun cls_match :: "bool \<Rightarrow> cls \<Rightarrow> char \<Rightarrow> bool" where
  "cls_match ic (In p) c = cls_pos ic p c"
| "cls_match ic (NotIn p) c = (\<not> cls_pos ic p c)"

definition chr_eq :: "bool \<Rightarrow> char \<Rightarrow> char \<Rightarrow> bool" where
  "chr_eq ic l c = (if ic then lower_char l = lower_char c else l = c)"

fun lit_match :: "bool \<Rightarrow> string \<Rightarrow> string \<Rightarrow> string \<Rightarrow> (string \<times> string) option" where
  "lit_match ic [] bef aft = Some (bef, aft)"
| "lit_match ic (l # ls) bef [] = None"
| "lit_match ic (l # ls) bef (c # cs) =
     (if chr_eq ic l c then lit_match ic ls (c # bef) cs else None)"

text \<open>The length of the longest run of class characters, at most \<open>n\<close> of them.\<close>

fun run_len :: "bool \<Rightarrow> cls \<Rightarrow> nat \<Rightarrow> string \<Rightarrow> nat" where
  "run_len ic k 0 s = 0"
| "run_len ic k (Suc n) [] = 0"
| "run_len ic k (Suc n) (c # cs) = (if cls_match ic k c then Suc (run_len ic k n cs) else 0)"

definition advance :: "nat \<Rightarrow> string \<Rightarrow> string \<Rightarrow> string \<times> string" where
  "advance n bef aft = (rev (take n aft) @ bef, drop n aft)"

text \<open>The candidate lengths of a greedy repetition: from \<open>hi\<close> down to \<open>lo\<close>.\<close>

fun downto :: "nat \<Rightarrow> nat \<Rightarrow> nat list" where
  "downto lo 0 = (if lo = 0 then [0] else [])"
| "downto lo (Suc n) = (if lo \<le> Suc n then Suc n # downto lo n else [])"

definition at_boundary :: "string \<Rightarrow> string \<Rightarrow> bool" where
  "at_boundary bef aft =
     ((case bef of [] \<Rightarrow> False | b # _ \<Rightarrow> is_word b)
        \<noteq> (case aft of [] \<Rightarrow> False | a # _ \<Rightarrow> is_word a))"

fun rmatch :: "bool \<Rightarrow> regex \<Rightarrow> mstate \<Rightarrow> mstate list" where
  "rmatch ic (Lit l) (bef, aft, caps) =
     (case lit_match ic l bef aft of
        None \<Rightarrow> [] | Some (b, a) \<Rightarrow> [(b, a, caps)])"
| "rmatch ic (Rep k lo hi) (bef, aft, caps) =
     (let n = run_len ic k (case hi of None \<Rightarrow> length aft | Some h \<Rightarrow> h) aft
      in map (\<lambda>j. (fst (advance j bef aft), snd (advance j bef aft), caps))
           (downto lo n))"
| "rmatch ic (Seq r1 r2) st = concat (map (rmatch ic r2) (rmatch ic r1 st))"
| "rmatch ic (Alt r1 r2) st = rmatch ic r1 st @ rmatch ic r2 st"
| "rmatch ic (Opt r) st = rmatch ic r st @ [st]"
| "rmatch ic (Grp i r) (bef, aft, caps) =
     map (\<lambda>(b, a, cs). (b, a, cs @ [(i, take (length aft - length a) aft)]))
       (rmatch ic r (bef, aft, caps))"
| "rmatch ic WordB (bef, aft, caps) =
     (if at_boundary bef aft then [(bef, aft, caps)] else [])"
| "rmatch ic Bol (bef, aft, caps) = (if bef = [] then [(bef, aft, caps)] else [])"
| "rmatch ic Eol (bef, aft, caps) =
     (if aft = [] \<or> aft = [CHR 0x0A] then [(bef, aft, caps)] else [])"

text \<open>
  A match object: where the match starts and ends (as offsets into the subject) and its
  groups. \<open>group m i\<close> is \<open>m.group(i)\<close> for a group that took part in the match.
\<close>

record rx_match =
  m_start :: nat
  m_end :: nat
  m_groups :: "(nat \<times> string) list"

definition group :: "rx_match \<Rightarrow> nat \<Rightarrow> string option" where
  "group m i = map_of (rev (m_groups m)) i"

definition match_at :: "bool \<Rightarrow> regex \<Rightarrow> string \<Rightarrow> string \<Rightarrow> rx_match option" where
  "match_at ic r bef aft =
     (case rmatch ic r (bef, aft, []) of
        [] \<Rightarrow> None
      | (b, a, caps) # _ \<Rightarrow>
          Some \<lparr>m_start = length bef, m_end = length b, m_groups = caps\<rparr>)"

text \<open>\<open>re.match\<close>: a match at the start of the subject.\<close>

definition re_match :: "bool \<Rightarrow> regex \<Rightarrow> string \<Rightarrow> rx_match option" where
  "re_match ic r s = match_at ic r [] s"

text \<open>\<open>re.search\<close>: the match at the leftmost position that has one.\<close>

fun search_from :: "bool \<Rightarrow> regex \<Rightarrow> string \<Rightarrow> string \<Rightarrow> rx_match option" where
  "search_from ic r bef [] = match_at ic r bef []"
| "search_from ic r bef (c # cs) =
     (case match_at ic r bef (c # cs) of
        Some m \<Rightarrow> Some m
      | None \<Rightarrow> search_from ic r (c # bef) cs)"

definition re_search :: "bool \<Rightarrow> regex \<Rightarrow> string \<Rightarrow> rx_match option" where
  "re_search ic r s = search_from ic r [] s"

text \<open>\<open>re.fullmatch\<close>: some way of matching from the start ends at the end.\<close>

definition re_fullmatch :: "bool \<Rightarrow> regex \<Rightarrow> string \<Rightarrow> bool" where
  "re_fullmatch ic r s = (\<exists>st \<in> set (rmatch ic r ([], s, [])). fst (snd st) = [])"

text \<open>
  \<open>re.sub(pattern, repl, s)\<close> for a replacement without group references: scanning
  from the left, every match is replaced and the scan resumes at its end; a character
  at which nothing matches is copied. After an empty match the next character is copied
  and the scan moves on by one, as \<open>re\<close> does since Python 3.7.
\<close>

function sub_from :: "bool \<Rightarrow> regex \<Rightarrow> string \<Rightarrow> string \<Rightarrow> string \<Rightarrow> string" where
  "sub_from ic r repl bef aft =
     (case rmatch ic r (bef, aft, []) of
        [] \<Rightarrow> (case aft of [] \<Rightarrow> [] | c # cs \<Rightarrow> c # sub_from ic r repl (c # bef) cs)
      | (b, a, caps) # _ \<Rightarrow>
          if length a < length aft then repl @ sub_from ic r repl b a
          else repl @ (case aft of [] \<Rightarrow> []
                       | c # cs \<Rightarrow> c # sub_from ic r repl (c # bef) cs))"
  by pat_completeness auto
termination
  by (relation "measure (\<lambda>(ic, r, repl, bef, aft). length aft)") auto

definition re_sub :: "bool \<Rightarrow> regex \<Rightarrow> string \<Rightarrow> string \<Rightarrow> string" where
  "re_sub ic r repl s = sub_from ic r repl [] s"

text \<open>Shorthands for writing the patterns of the source.\<close>

definition one :: "cls \<Rightarrow> regex" where
  "one k = Rep k 1 (Some 1)"

definition plus :: "cls \<Rightarrow> regex" where
  "plus k = Rep k 1 None"

definition star :: "cls \<Rightarrow> regex" where
  "star k = Rep k 0 None"

fun seqs :: "regex list \<Rightarrow> regex" where
  "seqs [] = Lit []"
| "seqs [r] = r"
| "seqs (r # rs) = Seq r (seqs rs)"

fun alts :: "regex list \<Rightarrow> regex" where
  "alts [] = Rep (In (\<lambda>c. False)) 1 (Some 1)"
| "alts [r] = r"
| "alts (r # rs) = Alt r (alts rs)"

section \<open>String normalisation (fabric\_matcher.py)\<close>

definition word_space_hyphen :: "char \<Rightarrow> bool" where
  "word_space_hyphen c = (is_word c \<or> is_space c \<or> c = CHR ''-'')"

text \<open>
  The five noise patterns of \<open>normalize_string\<close>, in the source's order. They are
  applied without \<open>re.I\<close>, following \<open>s.lower()\<close>.
\<close>

definition noise_patterns :: "regex list" where
  "noise_patterns =
     [seqs [WordB, Rep (In is_digit) 1 (Some 2), WordB],
      seqs [WordB, Lit ''5%'', WordB],
      seqs [WordB, Rep (In is_upper_AZ) 2 (Some 2), Rep (In is_digit) 2 (Some 2),
            Rep (In is_upper_AZ) 5 (Some 5), Rep (In is_digit) 2 (Some 2), WordB],
      one (NotIn word_space_hyphen),
      plus (In is_space)]"

definition hyphen_ends :: regex where
  "hyphen_ends =
     Alt (Seq Bol (plus (In (\<lambda>c. c = CHR ''-''))))
         (Seq (plus (In (\<lambda>c. c = CHR ''-''))) Eol)"

definition normalize_string :: "string \<Rightarrow> string" where
  "normalize_string s =
     (if s = [] then []
      else
        (let s1 = lower s;
             s2 = fold (\<lambda>pattern s. re_sub False pattern '' '' s) noise_patterns s1;
             s3 = strip (re_sub False (plus (In is_space)) '' '' s2)
         in re_sub False hyphen_ends [] s3))"

definition tokenize_string :: "string \<Rightarrow> string list" where
  "tokenize_string s = filter (\<lambda>token. length token \<ge> 2) (split (normalize_string s))"

section \<open>The matcher (fabric\_matcher.py, FabricMatcher)\<close>

record ParsedFabric =
  material_name :: string
  quantity :: rat
  rate :: rat
  amount :: rat
  source_invoice :: string

record DatabaseFabric =
  db_material_name :: string
  default_purchase_price :: rat

record MatchResult =
  parsed_fabric :: ParsedFabric
  database_fabric :: "DatabaseFabric option"
  match_score :: rat
  match_algorithm :: string
  confidence_level :: string
  suggested_price :: "rat option"
  price_difference :: "double option"
  price_difference_percent :: "double option"

text \<open>
  A Python \<open>dict\<close> keeps its keys in insertion order, and assigning to a key that is
  present replaces the value where the key stands: an association list under
  \<open>AList.update\<close>. Iterating \<open>items()\<close> is going through the list.
\<close>

type_synonym db_index = "(string \<times> DatabaseFabric) list"

text \<open>The body of the loop of \<open>_build_index\<close>.\<close>

definition index_step :: "DatabaseFabric \<Rightarrow> db_index \<Rightarrow> db_index" where
  "index_step fabric index =
     (let normalized = normalize_string (db_material_name fabric)
      in if normalized \<noteq> [] then AList.update normalized fabric index else index)"

definition build_index :: "DatabaseFabric list \<Rightarrow> db_index" where
  "build_index database_fabrics = fold index_step database_fabrics []"

definition exact_match :: "db_index \<Rightarrow> string \<Rightarrow> (DatabaseFabric \<times> rat) option" where
  "exact_match index parsed_name =
     (let normalized_parsed = normalize_string parsed_name
      in case map_of index normalized_parsed of
           Some fabric \<Rightarrow> Some (fabric, 100)
         | None \<Rightarrow> None)"

text \<open>
  The scanning strategies run a \<open>for\<close> loop over the index with the two variables
  \<open>best_match\<close> and \<open>best_score\<close>; a division by zero inside the loop body ends the
  loop with the exception.
\<close>

type_synonym best = "DatabaseFabric option \<times> rat"

fun for_items :: "(string \<Rightarrow> DatabaseFabric \<Rightarrow> best \<Rightarrow> py_error + best) \<Rightarrow> db_index \<Rightarrow>
    best \<Rightarrow> py_error + best" where
  "for_items body [] b = Inr b"
| "for_items body ((db_name, fabric) # items) b =
     (case body db_name fabric b of
        Inl e \<Rightarrow> Inl e
      | Inr b' \<Rightarrow> for_items body items b')"

definition improve :: "DatabaseFabric \<Rightarrow> rat \<Rightarrow> best \<Rightarrow> best" where
  "improve fabric score b = (if score > snd b then (Some fabric, score) else b)"

definition threshold :: "rat \<Rightarrow> py_error + best \<Rightarrow> py_error + (DatabaseFabric \<times> rat) option" where
  "threshold t res =
     (case res of
        Inl e \<Rightarrow> Inl e
      | Inr (best_match, best_score) \<Rightarrow>
          if best_score \<ge> t
          then (case best_match of Some fabric \<Rightarrow> Inr (Some (fabric, best_score))
                | None \<Rightarrow> Inr None)
          else Inr None)"

definition substring_stop_tokens :: "string list" where
  "substring_stop_tokens = [''a'', ''h'', ''s'', ''home'', ''ddecor'', ''sujan'']"

definition substring_body ::
  "string \<Rightarrow> string set \<Rightarrow> string \<Rightarrow> DatabaseFabric \<Rightarrow> best \<Rightarrow> py_error + best" where
  "substring_body normalized_parsed parsed_tokens db_name fabric b =
     (let db_tokens = set (tokenize_string db_name);
          r1 =
            (if contains normalized_parsed db_name then
               (case truediv (of_nat (length normalized_parsed)) (of_nat (length db_name)) of
                  Inl e \<Rightarrow> Inl e
                | Inr match_ratio \<Rightarrow> Inr (improve fabric (min 95 (80 + match_ratio * 20)) b))
             else if contains db_name normalized_parsed then
               (case truediv (of_nat (length db_name)) (of_nat (length normalized_parsed)) of
                  Inl e \<Rightarrow> Inl e
                | Inr match_ratio \<Rightarrow> Inr (improve fabric (min 95 (80 + match_ratio * 20)) b))
             else Inr b)
      in case r1 of
           Inl e \<Rightarrow> Inl e
         | Inr b1 \<Rightarrow>
             if parsed_tokens \<noteq> {} \<and> db_tokens \<noteq> {} then
               (let db_tokens_clean = {token \<in> db_tokens. token \<notin> set substring_stop_tokens};
                    overlap = card (parsed_tokens \<inter> db_tokens_clean);
                    total = card (parsed_tokens \<union> db_tokens_clean)
                in if overlap > 0 then
                     (case truediv (of_nat overlap) (of_nat total) of
                        Inl e \<Rightarrow> Inl e
                      | Inr q \<Rightarrow> Inr (improve fabric (q * 90) b1))
                   else Inr b1)
             else Inr b1)"

definition substring_match ::
  "db_index \<Rightarrow> string \<Rightarrow> py_error + (DatabaseFabric \<times> rat) option" where
  "substring_match index parsed_name =
     (let normalized_parsed = normalize_string parsed_name;
          parsed_tokens = set (tokenize_string parsed_name)
      in threshold 60
           (for_items (substring_body normalized_parsed parsed_tokens) index (None, 0)))"

text \<open>
  The similarity measures of \<open>difflib\<close>, \<open>jellyfish\<close> and \<open>fuzzywuzzy\<close> are libraries
  outside the repository; \<open>fuzzy_match\<close> takes them as a parameter.
\<close>

record similarity =
  sequence_ratio :: "string \<Rightarrow> string \<Rightarrow> rat"
  jaro_winkler_similarity :: "string \<Rightarrow> string \<Rightarrow> rat"
  levenshtein_distance :: "string \<Rightarrow> string \<Rightarrow> nat"
  fuzz_ratio :: "string \<Rightarrow> string \<Rightarrow> int"
  fuzz_partial_ratio :: "string \<Rightarrow> string \<Rightarrow> int"
  fuzz_token_sort_ratio :: "string \<Rightarrow> string \<Rightarrow> int"
  fuzz_token_set_ratio :: "string \<Rightarrow> string \<Rightarrow> int"

definition fuzzy_body ::
  "similarity \<Rightarrow> string \<Rightarrow> string \<Rightarrow> DatabaseFabric \<Rightarrow> best \<Rightarrow> py_error + best" where
  "fuzzy_body lib normalized_parsed db_name fabric b =
     (let seq_score = sequence_ratio lib normalized_parsed db_name * 100;
          jaro_score = jaro_winkler_similarity lib normalized_parsed db_name * 100
      in case truediv (of_nat (levenshtein_distance lib normalized_parsed db_name))
                (of_nat (max (length normalized_parsed) (length db_name))) of
           Inl e \<Rightarrow> Inl e
         | Inr q \<Rightarrow>
             (let lev_score = max 0 (100 - q * 100);
                  scores = [seq_score, jaro_score, lev_score,
                            of_int (fuzz_ratio lib normalized_parsed db_name),
                            of_int (fuzz_partial_ratio lib normalized_parsed db_name),
                            of_int (fuzz_token_sort_ratio lib normalized_parsed db_name),
                            of_int (fuzz_token_set_ratio lib normalized_parsed db_name)];
                  avg_score = sum_list scores / of_nat (length scores)
              in Inr (improve fabric avg_score b)))"

definition fuzzy_match ::
  "similarity \<Rightarrow> db_index \<Rightarrow> string \<Rightarrow> py_error + (DatabaseFabric \<times> rat) option" where
  "fuzzy_match lib index parsed_name =
     (let normalized_parsed = normalize_string parsed_name
      in threshold 70 (for_items (fuzzy_body lib normalized_parsed) index (None, 0)))"

definition fabric_types :: "string list" where
  "fabric_types = [''cotton'', ''silk'', ''wool'', ''linen'', ''polyester'', ''rayon'',
                   ''nylon'', ''acrylic'']"

definition colors :: "string list" where
  "colors = [''red'', ''blue'', ''green'', ''yellow'', ''black'', ''white'', ''brown'', ''pink'',
             ''purple'', ''orange'', ''gray'', ''grey'']"

definition patterns :: "string list" where
  "patterns = [''striped'', ''checked'', ''floral'', ''geometric'', ''solid'', ''print'',
               ''embroidery'']"

text \<open>
  One of the three keyword loops of \<open>semantic_match\<close>: it goes through the parsed
  tokens and updates \<open>(score, total_keywords)\<close>.
\<close>

fun keyword_loop :: "string list \<Rightarrow> rat \<Rightarrow> string list \<Rightarrow> string list \<Rightarrow> rat \<times> nat \<Rightarrow> rat \<times> nat" where
  "keyword_loop keywords points db_tokens [] (score, total_keywords) = (score, total_keywords)"
| "keyword_loop keywords points db_tokens (token # tokens) (score, total_keywords) =
     (if token \<in> set keywords then
        keyword_loop keywords points db_tokens tokens
          (if token \<in> set db_tokens then score + points else score, total_keywords + 1)
      else keyword_loop keywords points db_tokens tokens (score, total_keywords))"

definition semantic_body ::
  "string list \<Rightarrow> string \<Rightarrow> DatabaseFabric \<Rightarrow> best \<Rightarrow> py_error + best" where
  "semantic_body parsed_tokens db_name fabric b =
     (let db_tokens = tokenize_string db_name;
          st1 = keyword_loop fabric_types 25 db_tokens parsed_tokens (0, 0);
          st2 = keyword_loop colors 20 db_tokens parsed_tokens st1;
          st3 = keyword_loop patterns 15 db_tokens parsed_tokens st2
      in if snd st3 > 0 then
           (case truediv (fst st3) (of_nat (snd st3)) of
              Inl e \<Rightarrow> Inl e
            | Inr q \<Rightarrow> Inr (improve fabric (q * 100) b))
         else Inr b)"

definition semantic_match ::
  "db_index \<Rightarrow> string \<Rightarrow> py_error + (DatabaseFabric \<times> rat) option" where
  "semantic_match index parsed_name =
     (let parsed_tokens = tokenize_string parsed_name
      in threshold 50 (for_items (semantic_body parsed_tokens) index (None, 0)))"

text \<open>The two prefix patterns of \<open>prefix_based_match\<close>; they are applied with \<open>re.I\<close>.\<close>

definition prefix_patterns :: "regex list" where
  "prefix_patterns =
     [seqs [Bol, one (In is_lower_az), star (In is_space), Lit ''-'', star (In is_space)],
      seqs [Bol, plus (In is_lower_az), star (In is_space)]]"

definition prefix_tokens :: "string list" where
  "prefix_tokens = [''a'', ''h'', ''s'', ''home'', ''ddecor'', ''sujan'', ''agora'']"

definition prefix_body ::
  "string \<Rightarrow> string set \<Rightarrow> string \<Rightarrow> DatabaseFabric \<Rightarrow> best \<Rightarrow> py_error + best" where
  "prefix_body normalized_parsed parsed_tokens db_name fabric b =
     (let db_tokens = set (tokenize_string db_name);
          db_name_clean = fold (\<lambda>pattern s. re_sub True pattern [] s) prefix_patterns db_name;
          r1 =
            (if contains normalized_parsed db_name_clean \<or> contains db_name_clean normalized_parsed
             then
               (case truediv (of_nat (length normalized_parsed))
                       (of_nat (max (length db_name_clean) (length normalized_parsed))) of
                  Inl e \<Rightarrow> Inl e
                | Inr match_ratio \<Rightarrow> Inr (improve fabric (min 95 (85 + match_ratio * 15)) b))
             else Inr b)
      in case r1 of
           Inl e \<Rightarrow> Inl e
         | Inr b1 \<Rightarrow>
             if parsed_tokens \<noteq> {} \<and> db_tokens \<noteq> {} then
               (let db_tokens_clean = {token \<in> db_tokens. lower token \<notin> set prefix_tokens}
                in if db_tokens_clean \<noteq> {} then
                     (let overlap = card (parsed_tokens \<inter> db_tokens_clean);
                          total = card (parsed_tokens \<union> db_tokens_clean)
                      in if overlap \<ge> 2 then
                           (case truediv (of_nat overlap) (of_nat total) of
                              Inl e \<Rightarrow> Inl e
                            | Inr q \<Rightarrow> Inr (improve fabric (q * 95) b1))
                         else Inr b1)
                   else Inr b1)
             else Inr b1)"

definition prefix_based_match ::
  "db_index \<Rightarrow> string \<Rightarrow> py_error + (DatabaseFabric \<times> rat) option" where
  "prefix_based_match index parsed_name =
     (let normalized_parsed = normalize_string parsed_name;
          parsed_tokens = set (tokenize_string parsed_name)
      in threshold 70
           (for_items (prefix_body normalized_parsed parsed_tokens) index (None, 0)))"

definition create_match_result ::
  "ParsedFabric \<Rightarrow> DatabaseFabric option \<Rightarrow> rat \<Rightarrow> string \<Rightarrow> string \<Rightarrow> py_error + MatchResult" where
  "create_match_result pf db_fabric score algorithm confidence =
     (let sp = (case db_fabric of Some f \<Rightarrow> Some (default_purchase_price f) | None \<Rightarrow> None);
          result = (\<lambda>diff pct.
            \<lparr>parsed_fabric = pf, database_fabric = db_fabric, match_score = score,
             match_algorithm = algorithm, confidence_level = confidence,
             suggested_price = sp, price_difference = diff, price_difference_percent = pct\<rparr>)
      in case sp of
           Some price \<Rightarrow>
             if price \<noteq> 0 \<and> rate pf \<noteq> 0 then
               (let d = fabs (fsub (rate pf) price)
                in case fdiv d price of
                     Inl e \<Rightarrow> Inl e
                   | Inr q \<Rightarrow> Inr (result (Some d) (Some (fmul q 100))))
             else Inr (result None None)
         | None \<Rightarrow> Inr (result None None))"

definition match_fabric :: "similarity \<Rightarrow> db_index \<Rightarrow> ParsedFabric \<Rightarrow> py_error + MatchResult" where
  "match_fabric lib index pf =
     (let parsed_name = material_name pf in
      case exact_match index parsed_name of
        Some (db_fabric, score) \<Rightarrow>
          create_match_result pf (Some db_fabric) score ''EXACT_MATCH'' ''HIGH''
      | None \<Rightarrow>
     (case prefix_based_match index parsed_name of
        Inl e \<Rightarrow> Inl e
      | Inr (Some (db_fabric, score)) \<Rightarrow>
          create_match_result pf (Some db_fabric) score ''PREFIX_BASED_MATCH''
            (if score \<ge> 85 then ''HIGH'' else ''MEDIUM'')
      | Inr None \<Rightarrow>
     (case substring_match index parsed_name of
        Inl e \<Rightarrow> Inl e
      | Inr (Some (db_fabric, score)) \<Rightarrow>
          create_match_result pf (Some db_fabric) score ''SUBSTRING_MATCH''
            (if score \<ge> 85 then ''HIGH'' else ''MEDIUM'')
      | Inr None \<Rightarrow>
     (case fuzzy_match lib index parsed_name of
        Inl e \<Rightarrow> Inl e
      | Inr (Some (db_fabric, score)) \<Rightarrow>
          create_match_result pf (Some db_fabric) score ''FUZZY_MATCH''
            (if score \<ge> 85 then ''HIGH'' else ''MEDIUM'')
      | Inr None \<Rightarrow>
     (case semantic_match index parsed_name of
        Inl e \<Rightarrow> Inl e
      | Inr (Some (db_fabric, score)) \<Rightarrow>
          create_match_result pf (Some db_fabric) score ''SEMANTIC_MATCH''
            (if score \<ge> 70 then ''MEDIUM'' else ''LOW'')
      | Inr None \<Rightarrow>
          create_match_result pf None 0 ''NO_MATCH'' ''NO_MATCH'')))))"

text \<open>
  The substring strategy in the words of the specification: a catalog name is a
  candidate through containment, in either direction, with the score
  \<open>min(95, 80 + coverage * 20)\<close>, and through token overlap, with the score
  \<open>overlap / union * 90\<close>, where the stop tokens are removed from the catalog's
  tokens. \<open>candidates\<close> lists the candidates of an index with their scores.
\<close>

definition coverage_score :: "string \<Rightarrow> string \<Rightarrow> rat option" where
  "coverage_score name db_name =
     (if contains name db_name
      then Some (min 95 (80 + (of_nat (length name) / of_nat (length db_name)) * 20))
      else if contains db_name name
      then Some (min 95 (80 + (of_nat (length db_name) / of_nat (length name)) * 20))
      else None)"

definition overlap_score :: "string set \<Rightarrow> string \<Rightarrow> rat option" where
  "overlap_score tokens db_name =
     (let db_tokens = set (tokenize_string db_name) - set substring_stop_tokens;
          overlap = card (tokens \<inter> db_tokens);
          union = card (tokens \<union> db_tokens)
      in if overlap \<noteq> 0 then Some (of_nat overlap / of_nat union * 90) else None)"

definition candidate_scores :: "string \<Rightarrow> string set \<Rightarrow> string \<Rightarrow> rat list" where
  "candidate_scores name tokens db_name =
     (case coverage_score name db_name of Some s \<Rightarrow> [s] | None \<Rightarrow> []) @
     (case overlap_score tokens db_name of Some s \<Rightarrow> [s] | None \<Rightarrow> [])"

definition candidates :: "db_index \<Rightarrow> string \<Rightarrow> (DatabaseFabric \<times> rat) list" where
  "candidates index parsed_name =
     concat (map (\<lambda>(db_name, fabric).
                    map (\<lambda>s. (fabric, s))
                      (candidate_scores (normalize_string parsed_name)
                         (set (tokenize_string parsed_name)) db_name))
                 index)"



definition best_score :: "py_error + best \<Rightarrow> py_error + rat" where
  "best_score res = (case res of Inl e \<Rightarrow> Inl e | Inr b \<Rightarrow> Inr (snd b))"







text \<open>What a match result says about the match: algorithm, entry, score, confidence.\<close>

definition summary ::
  "py_error + MatchResult \<Rightarrow> py_error + (string \<times> DatabaseFabric option \<times> rat \<times> string)" where
  "summary res =
     map_sum id (\<lambda>r. (match_algorithm r, database_fabric r, match_score r, confidence_level r)) res"

text \<open>
  A value for the library parameter in the examples below: every measure rates the
  catalog name \<open>target\<close> as identical to the parsed name and any other name as
  entirely different.
\<close>

definition only_similar_to :: "string \<Rightarrow> similarity" where
  "only_similar_to target =
     \<lparr>sequence_ratio = (\<lambda>a b. if b = target then 1 else 0),
      jaro_winkler_similarity = (\<lambda>a b. if b = target then 1 else 0),
      levenshtein_distance = (\<lambda>a b. if b = target then 0 else max (length a) (length b)),
      fuzz_ratio = (\<lambda>a b. if b = target then 100 else 0),
      fuzz_partial_ratio = (\<lambda>a b. if b = target then 100 else 0),
      fuzz_token_sort_ratio = (\<lambda>a b. if b = target then 100 else 0),
      fuzz_token_set_ratio = (\<lambda>a b. if b = target then 100 else 0)\<rparr>"

section \<open>The invoice parser (test\_basic\_ocr.py, UniversalInvoiceParser)\<close>

text \<open>
  \<open>float(s)\<close> for a decimal literal: surrounding whitespace, an optional sign, digits
  with an optional fraction. These are the forms that the capture groups of the parser
  can hand over; an exponent, an underscore, \<open>inf\<close> and \<open>nan\<close>, which Python also
  accepts, are \<open>ValueError\<close> here.
\<close>

fun digits_val :: "string \<Rightarrow> int \<Rightarrow> int" where
  "digits_val [] acc = acc"
| "digits_val (c # cs) acc = digits_val cs (acc * 10 + (code c - 48))"

definition unsigned_float :: "string \<Rightarrow> py_error + rat" where
  "unsigned_float s =
     (let ip = takeWhile is_digit s
      in case dropWhile is_digit s of
           [] \<Rightarrow> if ip = [] then Inl ValueError else Inr (of_int (digits_val ip 0))
         | c # fp \<Rightarrow>
             if c = CHR ''.'' \<and> list_all is_digit fp \<and> (ip \<noteq> [] \<or> fp \<noteq> [])
             then Inr (of_int (digits_val ip 0) + of_int (digits_val fp 0) / 10 ^ length fp)
             else Inl ValueError)"

definition py_float :: "string \<Rightarrow> py_error + rat" where
  "py_float s =
     (case strip s of
        [] \<Rightarrow> Inl ValueError
      | c # u \<Rightarrow>
          if c = CHR ''-'' then
            (case unsigned_float u of Inl e \<Rightarrow> Inl e | Inr v \<Rightarrow> Inr (- v))
          else if c = CHR ''+'' then unsigned_float u
          else unsigned_float (c # u))"

text \<open>\<open>float(m.group(i))\<close>; a group that took no part in the match is \<open>None\<close>.\<close>

definition float_group :: "rx_match \<Rightarrow> nat \<Rightarrow> py_error + rat" where
  "float_group m i = (case group m i of None \<Rightarrow> Inl TypeError | Some g \<Rightarrow> py_float g)"

text \<open>\<open>float(m.group(i).replace(',', ''))\<close>.\<close>

definition float_group_nocomma :: "rx_match \<Rightarrow> nat \<Rightarrow> py_error + rat" where
  "float_group_nocomma m i =
     (case group m i of
        None \<Rightarrow> Inl TypeError
      | Some g \<Rightarrow> py_float (filter (\<lambda>c. c \<noteq> CHR '','') g))"

record InvoiceLine =
  il_material_name :: string
  il_quantity :: "rat option"
  il_amount :: "rat option"
  il_rate :: "rat option"

text \<open>The building blocks of the item patterns.\<close>

definition hyphen :: "char \<Rightarrow> bool" where
  "hyphen c = (c = CHR ''-'')"

definition ws :: regex where
  "ws = star (In is_space)"

text \<open>\<open>(\d+(?:\.\d+)?)\<close> as group \<open>i\<close>.\<close>

definition num :: "nat \<Rightarrow> regex" where
  "num i = Grp i (Seq (plus (In is_digit)) (Opt (Seq (Lit ''.'') (plus (In is_digit)))))"

definition digit_or_comma :: "char \<Rightarrow> bool" where
  "digit_or_comma c = (is_digit c \<or> c = CHR '','')"

text \<open>\<open>([\d,]+(?:\.\d+)?)\<close> as group \<open>i\<close>.\<close>

definition amt :: "nat \<Rightarrow> regex" where
  "amt i = Grp i (Seq (plus (In digit_or_comma)) (Opt (Seq (Lit ''.'') (plus (In is_digit)))))"

definition lits :: "string list \<Rightarrow> regex" where
  "lits ls = alts (map Lit ls)"

definition mtr_meter :: regex where
  "mtr_meter = lits [''Mtr'', ''Meter'']"

text \<open>
  The seventeen patterns of \<open>_parse_sarom_format\<close>, in the source's order (several of
  them are written more than once there). They are searched with \<open>re.I\<close>.
\<close>

definition sarom_p1 :: regex where
  "sarom_p1 = seqs [num 1, ws, lits [''My'', ''Mtr'', ''Meter'', ''Mtr,'', ''Mtr~'', ''Mtr\"''], ws,
                    num 2, ws, lits [''Mu'', ''Mtr'', ''Meter''], ws, amt 3]"

definition sarom_p2 :: regex where
  "sarom_p2 = seqs [num 1, ws, mtr_meter, ws, num 2, ws, mtr_meter, ws, amt 3]"

definition sarom_p3 :: regex where
  "sarom_p3 = seqs [num 1, mtr_meter, lits ['','', ''~'', ''-''], ws, num 2, ws, mtr_meter, ws,
                    amt 3]"

definition sarom_p4 :: regex where
  "sarom_p4 = seqs [num 1, ws, Lit ''Mtr~'', ws, Opt (Lit '',''), ws, num 2, ws, Lit ''Mtr'', ws,
                    amt 3]"

definition sarom_p5 :: regex where
  "sarom_p5 = seqs [num 1, ws, Lit ''Mtr,'', ws, num 2, ws, Lit ''Mtr'', ws, amt 3]"

definition sarom_p6 :: regex where
  "sarom_p6 = seqs [num 1, ws, Lit ''Mtr\"'', ws, num 2, ws, Lit ''Mtr'', ws, amt 3]"

definition sarom_p7 :: regex where
  "sarom_p7 = seqs [num 1, ws, Lit ''Mtr'', ws, num 2, ws, Lit ''Mtr'', ws, amt 3]"

definition sarom_p10 :: regex where
  "sarom_p10 = seqs [num 1, ws, Lit ''Mtr-'', ws, num 2, ws, Lit ''Mu'', ws, amt 3]"

definition sarom_p16 :: regex where
  "sarom_p16 = seqs [num 1, ws, Lit ''Mtr'', star (NotIn is_digit), ws, num 2, ws, Lit ''Mtr'', ws,
                     amt 3]"

definition sarom_patterns :: "regex list" where
  "sarom_patterns =
     [sarom_p1, sarom_p2, sarom_p3, sarom_p4, sarom_p5, sarom_p6, sarom_p7, sarom_p2,
      sarom_p6, sarom_p10, sarom_p7, sarom_p7,
      sarom_p6, sarom_p7,
      sarom_p6,
      sarom_p16, sarom_p16]"

text \<open>The noise patterns of \<open>_clean_sarom_fabric_name\<close>; they are applied with \<open>re.I\<close>.\<close>

definition gstin_like :: regex where
  "gstin_like =
     seqs [Rep (In is_upper_AZ) 2 (Some 2), Rep (In is_digit) 2 (Some 2),
           Rep (In is_upper_AZ) 5 (Some 5), one (In is_digit), one (In is_upper_AZ),
           one (In is_digit), one (In is_upper_AZ), one (In is_digit)]"

definition sarom_noise_patterns :: "regex list" where
  "sarom_noise_patterns =
     [seqs [WordB, Lit ''5%'', WordB],
      seqs [WordB, Rep (In is_digit) 8 (Some 8), WordB],
      seqs [WordB, Rep (In is_digit) 6 (Some 7), WordB],
      seqs [WordB, Rep (In is_digit) 1 (Some 2), WordB],
      gstin_like,
      seqs [WordB, Rep (In is_alpha_ascii) 8 None, Rep (In is_digit) 2 None, WordB],
      seqs [WordB, Rep (In is_digit) 2 None, Rep (In is_alpha_ascii) 3 None,
            Rep (In is_digit) 2 None, WordB],
      seqs [WordB, Rep (In is_alpha_ascii) 4 None, Rep (In is_digit) 2 None,
            Rep (In is_alpha_ascii) 2 None, Rep (In is_digit) 2 None, WordB],
      seqs [WordB, Rep (In is_alpha_ascii) 6 None, Rep (In is_digit) 2 None, WordB],
      one (NotIn word_space_hyphen),
      plus (In is_space),
      Alt (Seq Bol (plus (In is_space))) (Seq (plus (In is_space)) Eol)]"

definition digit_or_space :: "char \<Rightarrow> bool" where
  "digit_or_space c = (is_digit c \<or> is_space c)"

definition clean_sarom_fabric_name :: "string \<Rightarrow> string" where
  "clean_sarom_fabric_name name =
     (if name = [] then []
      else
        (let n1 = fold (\<lambda>pattern s. re_sub True pattern '' '' s) sarom_noise_patterns name;
             n2 = strip (re_sub False (plus (In is_space)) '' '' n1);
             n3 = strip (re_sub False hyphen_ends [] n2)
         in if length n3 \<ge> 3 \<and> \<not> re_fullmatch False (plus (In digit_or_space)) n3
            then n3 else []))"

text \<open>
  The inner loop of \<open>_parse_sarom_format\<close> over the patterns, for one stripped line:
  the line item that is appended, if any. A pattern that matches where the text before
  the match does not give a name does not end the loop.
\<close>

fun sarom_try :: "regex list \<Rightarrow> string \<Rightarrow> py_error + InvoiceLine option" where
  "sarom_try [] line = Inr None"
| "sarom_try (pattern # rest) line =
     (case re_search True pattern line of
        None \<Rightarrow> sarom_try rest line
      | Some m \<Rightarrow>
          (case float_group m 1 of Inl e \<Rightarrow> Inl e | Inr qty \<Rightarrow>
          (case float_group m 2 of Inl e \<Rightarrow> Inl e | Inr rate' \<Rightarrow>
          (case float_group_nocomma m 3 of Inl e \<Rightarrow> Inl e | Inr amount' \<Rightarrow>
             (let name_part = strip (take (m_start m) line)
              in if name_part \<noteq> [] then
                   (let clean_name = clean_sarom_fabric_name name_part
                    in if clean_name \<noteq> [] \<and> length clean_name \<ge> 3
                       then Inr (Some \<lparr>il_material_name = clean_name, il_quantity = Some qty,
                                       il_amount = Some amount', il_rate = Some rate'\<rparr>)
                       else sarom_try rest line)
                 else sarom_try rest line)))))"

text \<open>The loop over the lines; \<open>fabric_details\<close> is the list built so far.\<close>

fun sarom_lines :: "string list \<Rightarrow> InvoiceLine list \<Rightarrow> py_error + InvoiceLine list" where
  "sarom_lines [] fabric_details = Inr fabric_details"
| "sarom_lines (l # ls) fabric_details =
     (let line = strip l
      in if line = [] \<or> length line < 10 then sarom_lines ls fabric_details
         else (case sarom_try sarom_patterns line of
                 Inl e \<Rightarrow> Inl e
               | Inr None \<Rightarrow> sarom_lines ls fabric_details
               | Inr (Some item) \<Rightarrow> sarom_lines ls (fabric_details @ [item])))"

definition parse_sarom_format :: "string \<Rightarrow> py_error + InvoiceLine list" where
  "parse_sarom_format text = sarom_lines (split_lines text) []"

text \<open>
  The noise patterns of \<open>_clean_fabric_name\<close>, applied with \<open>re.I\<close>. The rupee sign of
  the last check is not a code point below 256 and does not occur in the modelled text.
\<close>

definition noise_words :: regex where
  "noise_words =
     alts [Lit ''GSTIN'', Lit ''GST'', Lit ''IGST'', Lit ''CGST'', Lit ''SGST'', Lit ''Tax'',
           Lit ''Total'',
           seqs [Lit ''Sub'', Rep (In (\<lambda>c. c = CHR ''-'' \<or> c = CHR '' '')) 0 (Some 1),
                 Lit ''total''],
           Lit ''Grand Total'', Lit ''Invoice'', Lit ''Bill'', Lit ''Address'', Lit ''Ship To'',
           Lit ''PIN'', Lit ''Pincode'', Lit ''Phone'', Lit ''Mobile'', Lit ''Email'']"

definition generic_noise_patterns :: "regex list" where
  "generic_noise_patterns =
     [seqs [WordB, Grp 1 noise_words, WordB],
      gstin_like,
      seqs [WordB, Rep (In is_digit) 6 (Some 6), WordB],
      seqs [WordB, Lit ''5%'', WordB],
      seqs [Lit ''|'', ws, Lit ''%'', star (NotIn (\<lambda>c. c = CHR ''|'')), Eol],
      seqs [Bol, plus (In is_digit), plus (In is_space)],
      seqs [plus (In is_space), Lit ''$'', plus (In is_digit), ws],
      seqs [plus (In is_space), one (In (\<lambda>c. code c = 167)), plus (In is_digit), ws]]"

definition edge_noise :: "char \<Rightarrow> bool" where
  "edge_noise c = (c = CHR '':'' \<or> c = CHR ''-'' \<or> is_space c \<or> c = CHR ''|'')"

definition numeric_noise :: "char \<Rightarrow> bool" where
  "numeric_noise c =
     (is_digit c \<or> is_space c \<or> c = CHR ''.'' \<or> c = CHR '','' \<or> c = CHR ''/'' \<or> c = CHR ''-'')"

definition clean_fabric_name :: "string \<Rightarrow> string" where
  "clean_fabric_name name =
     (if name = [] then []
      else
        (let n1 = fold (\<lambda>pattern s. re_sub True pattern [] s) generic_noise_patterns name;
             n2 = strip (re_sub False (plus (In is_space)) '' '' n1);
             n3 = re_sub False (Alt (Seq Bol (plus (In edge_noise))) (Seq (plus (In edge_noise)) Eol))
                    [] n2
         in if length n3 \<ge> 3 \<and> \<not> re_fullmatch False (plus (In numeric_noise)) n3
            then n3 else []))"

text \<open>
  \<open>_find_rate_amount_in_context\<close>: the loop over the lines from two before to two after
  the current one, with the variables \<open>rate\<close> and \<open>amount\<close>. A \<open>ValueError\<close> of
  \<open>float\<close> is caught and leaves the variable as it is.
\<close>

definition rate_pattern :: regex where
  "rate_pattern = seqs [num 1, ws, lits [''per'', ''/''], ws, lits [''mtr'', ''meter'', ''pcs'']]"

definition rupee :: "char \<Rightarrow> bool" where
  "rupee c = False"

definition amount_pattern :: regex where
  "amount_pattern = seqs [Rep (In rupee) 0 (Some 1), ws, amt 1]"

definition caught :: "py_error + rat \<Rightarrow> rat option \<Rightarrow> rat option" where
  "caught res old = (case res of Inl e \<Rightarrow> old | Inr v \<Rightarrow> Some v)"

definition context_step :: "string \<Rightarrow> rat option \<times> rat option \<Rightarrow> rat option \<times> rat option" where
  "context_step l ra =
     (let line = strip l;
          rate' =
            (if \<not> truthy (fst ra) then
               (case re_search True rate_pattern line of
                  None \<Rightarrow> fst ra
                | Some m \<Rightarrow>
                    (case group m 1 of
                       None \<Rightarrow> fst ra
                     | Some g \<Rightarrow> if g \<noteq> [] then caught (py_float g) (fst ra) else fst ra))
             else fst ra);
          amount' =
            (if \<not> truthy (snd ra) then
               (case re_search False amount_pattern line of
                  None \<Rightarrow> snd ra
                | Some m \<Rightarrow>
                    (case group m 1 of
                       None \<Rightarrow> snd ra
                     | Some g \<Rightarrow>
                         if g \<noteq> []
                         then caught (py_float (filter (\<lambda>c. c \<noteq> CHR '','') g)) (snd ra)
                         else snd ra))
             else snd ra)
      in (rate', amount'))"

definition find_rate_amount_in_context :: "string list \<Rightarrow> nat \<Rightarrow> rat option \<times> rat option" where
  "find_rate_amount_in_context lines current_line =
     fold context_step
       (take (min (length lines) (current_line + 3) - (current_line - 2))
          (drop (current_line - 2) lines))
       (None, None)"

definition the_default :: "'a \<Rightarrow> 'a option \<Rightarrow> 'a" where
  "the_default d x = (case x of None \<Rightarrow> d | Some v \<Rightarrow> v)"

definition name_pattern :: regex where
  "name_pattern =
     Seq Bol (Grp 1 (plus (In (\<lambda>c. is_alpha_ascii c \<or> is_space c \<or> c = CHR ''-''))))"

definition extract_fabric_from_line ::
  "string \<Rightarrow> string list \<Rightarrow> nat \<Rightarrow>
     py_error + (string option \<times> rat option \<times> rat option \<times> rat option)" where
  "extract_fabric_from_line line lines line_index =
     (let name = (case re_match False name_pattern line of
                    None \<Rightarrow> None
                  | Some m \<Rightarrow> map_option strip (group m 1))
      in case (case re_search False (num 1) line of
                 None \<Rightarrow> Inr None
               | Some m \<Rightarrow> (case float_group m 1 of Inl e \<Rightarrow> Inl e | Inr v \<Rightarrow> Inr (Some v))) of
           Inl e \<Rightarrow> Inl e
         | Inr qty \<Rightarrow>
             (let ra = find_rate_amount_in_context lines line_index
              in Inr (name, qty, fst ra, snd ra)))"

text \<open>The loop of \<open>_parse_generic_format\<close> over the lines with their indices.\<close>

fun generic_lines ::
  "string list \<Rightarrow> nat \<Rightarrow> string list \<Rightarrow> InvoiceLine list \<Rightarrow> py_error + InvoiceLine list" where
  "generic_lines lines i [] fabric_details = Inr fabric_details"
| "generic_lines lines i (l # ls) fabric_details =
     (let line = strip l
      in if line = [] \<or> length line < 10 then generic_lines lines (i + 1) ls fabric_details
         else if re_search False (one (In is_alpha_ascii)) line \<noteq> None
                 \<and> re_search False (plus (In is_digit)) line \<noteq> None then
           (case extract_fabric_from_line line lines i of
              Inl e \<Rightarrow> Inl e
            | Inr (name, qty, rate', amount') \<Rightarrow>
                if name \<noteq> None \<and> name \<noteq> Some [] \<and> truthy qty \<and> truthy rate' \<and> truthy amount' then
                  (let clean_name = clean_fabric_name (the_default [] name)
                   in if clean_name \<noteq> [] then
                        generic_lines lines (i + 1) ls
                          (fabric_details @
                             [\<lparr>il_material_name = clean_name, il_quantity = qty,
                               il_amount = amount', il_rate = rate'\<rparr>])
                      else generic_lines lines (i + 1) ls fabric_details)
                else generic_lines lines (i + 1) ls fabric_details)
         else generic_lines lines (i + 1) ls fabric_details)"

definition parse_generic_format :: "string \<Rightarrow> py_error + InvoiceLine list" where
  "parse_generic_format text = generic_lines (split_lines text) 0 (split_lines text) []"

section \<open>Price comparison (app.py, analyze\_invoice; test\_basic\_ocr.py, main)\<close>

text \<open>
  The status strings of the source carry emoji; they are named here by their wording.
  \<open>analyze_invoice\<close> and \<open>main\<close> run the same \<open>if\<close>/\<open>elif\<close> chain on
  \<open>price_diff_pct\<close>; the chain is \<open>bucket_of\<close>.
\<close>

datatype bucket = EXACT | MINOR | SMALL | MODERATE | SIGNIFICANT | MAJOR

datatype status = NOT_MATCHED | MATCHED | DIFFERENCE bucket

datatype price_status = PRICE_MATCHES | PRICE_MINOR_DIFFERENCE | PRICE_DOESNT_MATCH bucket

definition bucket_of :: "double \<Rightarrow> bucket" where
  "bucket_of price_diff_pct =
     (if price_diff_pct = Fin 0 then EXACT
      else if d_le price_diff_pct 2 then MINOR
      else if d_le price_diff_pct 5 then SMALL
      else if d_le price_diff_pct 10 then MODERATE
      else if d_le price_diff_pct 25 then SIGNIFICANT
      else MAJOR)"

definition price_status_of :: "bucket \<Rightarrow> price_status" where
  "price_status_of b =
     (case b of EXACT \<Rightarrow> PRICE_MATCHES | MINOR \<Rightarrow> PRICE_MINOR_DIFFERENCE
      | _ \<Rightarrow> PRICE_DOESNT_MATCH b)"

record price_analysis =
  invoice_rate :: rat
  database_price :: rat
  difference :: double
  difference_percentage :: double
  pa_status :: status
  pa_price_status :: price_status

text \<open>
  The price block of \<open>analyze_invoice\<close> for a matched item (app.py, lines 105 to 140):
  the item's status, the local \<open>price_status\<close> and the \<open>price_analysis\<close> entry, which
  stays \<open>None\<close> when the guard \<open>if item.rate and csv_price\<close> fails. The division is
  the partial one, so a \<open>ZeroDivisionError\<close> would show as \<open>Inl\<close>.
\<close>

definition analyze_price ::
  "rat option \<Rightarrow> rat \<Rightarrow> py_error + (status \<times> price_status \<times> price_analysis option)" where
  "analyze_price item_rate csv_price =
     (case item_rate of
        Some r \<Rightarrow>
          if r \<noteq> 0 \<and> csv_price \<noteq> 0 then
            (let price_diff = fabs (fsub r csv_price) in
             case fdiv price_diff csv_price of
               Inl e \<Rightarrow> Inl e
             | Inr q \<Rightarrow>
                 (let price_diff_pct = fmul q 100;
                      b = bucket_of price_diff_pct
                  in Inr (DIFFERENCE b, price_status_of b,
                       Some \<lparr>invoice_rate = r, database_price = csv_price,
                             difference = price_diff, difference_percentage = price_diff_pct,
                             pa_status = DIFFERENCE b, pa_price_status = price_status_of b\<rparr>)))
          else Inr (MATCHED, PRICE_MATCHES, None)
      | None \<Rightarrow> Inr (MATCHED, PRICE_MATCHES, None))"

text \<open>
  The same block in \<open>main\<close> (test\_basic\_ocr.py, lines 1211 to 1236): the status and
  \<open>price_match_status\<close> that are printed.
\<close>

definition main_price :: "rat option \<Rightarrow> rat \<Rightarrow> py_error + (status \<times> price_status)" where
  "main_price item_rate csv_price =
     (case item_rate of
        Some r \<Rightarrow>
          if r \<noteq> 0 \<and> csv_price \<noteq> 0 then
            (let price_diff = fabs (fsub r csv_price) in
             case fdiv price_diff csv_price of
               Inl e \<Rightarrow> Inl e
             | Inr q \<Rightarrow>
                 (let price_diff_pct = fmul q 100; b = bucket_of price_diff_pct
                  in Inr (DIFFERENCE b, price_status_of b)))
          else Inr (MATCHED, PRICE_MATCHES)
      | None \<Rightarrow> Inr (MATCHED, PRICE_MATCHES))"

section \<open>Properties of the price comparison\<close>

lemma d_le_mono: "d_le d a \<Longrightarrow> a \<le> b \<Longrightarrow> d_le d b"
  by (cases d) (auto simp: d_le_def)

lemma bucket_of_intervals:
  "(bucket_of d = EXACT \<longleftrightarrow> d = Fin 0) \<and>
   (bucket_of d = MINOR \<longleftrightarrow> d \<noteq> Fin 0 \<and> d_le d 2) \<and>
   (bucket_of d = SMALL \<longleftrightarrow> \<not> d_le d 2 \<and> d_le d 5) \<and>
   (bucket_of d = MODERATE \<longleftrightarrow> \<not> d_le d 5 \<and> d_le d 10) \<and>
   (bucket_of d = SIGNIFICANT \<longleftrightarrow> \<not> d_le d 10 \<and> d_le d 25) \<and>
   (bucket_of d = MAJOR \<longleftrightarrow> \<not> d_le d 25)"
proof -
  have z: "d_le (Fin 0) 2"
    by (simp add: d_le_def)
  have m: "d_le d 2 \<Longrightarrow> d_le d 5" "d_le d 5 \<Longrightarrow> d_le d 10" "d_le d 10 \<Longrightarrow> d_le d 25"
    by (erule d_le_mono, simp)+
  show ?thesis
    using z m by (auto simp: bucket_of_def)
qed

lemma round_double_zero: "round_double 0 = Fin 0"
  by (simp add: round_double_def)

lemma pct_equal_prices:
  "p \<noteq> 0 \<Longrightarrow> fdiv (fabs (fsub p p)) p = Inr (Fin 0) \<and> fmul (Fin 0) 100 = Fin 0"
  by (simp add: fsub_def fabs_def fdiv_def fmul_def round_double_zero)

text \<open>
  C2, as the code has it. The guard \<open>if item.rate and csv_price\<close> also skips an
  invoice rate of zero, so the comparison is made for a rate that is present and not
  zero and a positive catalog price. The percentage is \<open>|rate - price| / price * 100\<close>
  computed in doubles, and the bucket of the computed percentage is EXACT at 0, MINOR up
  to and including 2, SMALL up to and including 5, MODERATE up to and including 10,
  SIGNIFICANT up to and including 25, MAJOR above; \<open>analyze_invoice\<close> and \<open>main\<close>
  agree. Equal prices give EXACT with percentage 0.
\<close>

theorem price_buckets:
  "r \<noteq> 0 \<Longrightarrow> 0 < p \<Longrightarrow>
     (\<exists>b pa q. analyze_price (Some r) p = Inr (DIFFERENCE b, price_status_of b, Some pa) \<and>
        main_price (Some r) p = Inr (DIFFERENCE b, price_status_of b) \<and>
        pa_status pa = DIFFERENCE b \<and>
        difference pa = fabs (fsub r p) \<and>
        fdiv (difference pa) p = Inr q \<and>
        difference_percentage pa = fmul q 100 \<and>
        (b = EXACT \<longleftrightarrow> difference_percentage pa = Fin 0) \<and>
        (b = MINOR \<longleftrightarrow> difference_percentage pa \<noteq> Fin 0 \<and> d_le (difference_percentage pa) 2) \<and>
        (b = SMALL \<longleftrightarrow> \<not> d_le (difference_percentage pa) 2 \<and> d_le (difference_percentage pa) 5) \<and>
        (b = MODERATE \<longleftrightarrow>
           \<not> d_le (difference_percentage pa) 5 \<and> d_le (difference_percentage pa) 10) \<and>
        (b = SIGNIFICANT \<longleftrightarrow>
           \<not> d_le (difference_percentage pa) 10 \<and> d_le (difference_percentage pa) 25) \<and>
        (b = MAJOR \<longleftrightarrow> \<not> d_le (difference_percentage pa) 25) \<and>
        (r = p \<longrightarrow> b = EXACT \<and> difference_percentage pa = Fin 0))"
proof -
  assume r: "r \<noteq> 0" and p: "0 < p"
  obtain q where q: "fdiv (fabs (fsub r p)) p = Inr q"
    using p by (auto simp: fdiv_def)
  define d where "d = fmul q 100"
  have a: "analyze_price (Some r) p =
      Inr (DIFFERENCE (bucket_of d), price_status_of (bucket_of d),
        Some \<lparr>invoice_rate = r, database_price = p, difference = fabs (fsub r p),
              difference_percentage = d, pa_status = DIFFERENCE (bucket_of d),
              pa_price_status = price_status_of (bucket_of d)\<rparr>)"
    using r p q by (simp add: analyze_price_def d_def Let_def)
  have m: "main_price (Some r) p = Inr (DIFFERENCE (bucket_of d), price_status_of (bucket_of d))"
    using r p q by (simp add: main_price_def d_def Let_def)
  have e: "r = p \<longrightarrow> bucket_of d = EXACT \<and> d = Fin 0"
    using q r pct_equal_prices [of p] by (auto simp: d_def bucket_of_def)
  have z: "bucket_of (Fin 0) = EXACT"
    by (simp add: bucket_of_def)
  show ?thesis
    using a m e q z bucket_of_intervals [of d] by (auto simp: d_def)
qed

text \<open>
  102 against 100 computes to exactly 2.0 and is MINOR. 61.2 against 60, where the
  double nearest to 61.2 is \<open>4306567143673037 / 2^46\<close>, is a difference of 2 per cent
  that computes to \<open>2.000000000000005\<close>, above the bound, and is SMALL. Equal prices
  are EXACT.
\<close>

theorem price_buckets_witness:
  "(\<exists>pa. analyze_price (Some 102) 100 = Inr (DIFFERENCE MINOR, PRICE_MINOR_DIFFERENCE, Some pa) \<and>
       difference_percentage pa = Fin 2) \<and>
   (\<exists>pa. analyze_price (Some (4306567143673037 / 70368744177664)) 60
           = Inr (DIFFERENCE SMALL, PRICE_DOESNT_MATCH SMALL, Some pa) \<and>
       difference_percentage pa = Fin (4503599627370507 / 2251799813685248)) \<and>
   main_price (Some 549) 549 = Inr (DIFFERENCE EXACT, PRICE_MATCHES)"
proof -
  have h1: "(102::rat) \<noteq> 0" "(0::rat) < 100"
    by simp_all
  have h2: "(4306567143673037 / 70368744177664 :: rat) \<noteq> 0" "(0::rat) < 60"
    by simp_all
  have h3: "(549::rat) \<noteq> 0" "(0::rat) < 549"
    by simp_all
  have d1: "fmul (Fin (5764607523034235 / 288230376151711744)) 100 = Fin 2"
    by code_simp
  have q1: "fdiv (fabs (fsub 102 100)) 100 = Inr (Fin (5764607523034235 / 288230376151711744))"
    by code_simp
  have q2: "fdiv (fabs (fsub (4306567143673037 / 70368744177664) 60)) 60
      = Inr (Fin (5764607523034249 / 288230376151711744))"
    by code_simp
  have d2: "fmul (Fin (5764607523034249 / 288230376151711744)) 100
      = Fin (4503599627370507 / 2251799813685248)"
    by code_simp
  have a: "\<exists>pa. analyze_price (Some 102) 100
        = Inr (DIFFERENCE MINOR, PRICE_MINOR_DIFFERENCE, Some pa) \<and>
       difference_percentage pa = Fin 2"
    using price_buckets [OF h1] q1 d1 by (auto simp: price_status_of_def d_le_def)
  have b: "\<exists>pa. analyze_price (Some (4306567143673037 / 70368744177664)) 60
           = Inr (DIFFERENCE SMALL, PRICE_DOESNT_MATCH SMALL, Some pa) \<and>
       difference_percentage pa = Fin (4503599627370507 / 2251799813685248)"
    using price_buckets [OF h2] q2 d2 by (auto simp: price_status_of_def d_le_def)
  have c: "main_price (Some 549) 549 = Inr (DIFFERENCE EXACT, PRICE_MATCHES)"
    using price_buckets [OF h3] by (auto simp: price_status_of_def)
  show ?thesis
    using a b c by blast
qed

text \<open>
  C2 as stated fails for an invoice rate that is present but zero: with a catalog price
  of 100 the difference is 100 per cent (MAJOR), but the guard skips the comparison and
  the item is only reported as matched, without a price analysis.
\<close>

theorem price_zero_rate_counterexample:
  "analyze_price (Some 0) 100 = Inr (MATCHED, PRICE_MATCHES, None) \<and>
   main_price (Some 0) 100 = Inr (MATCHED, PRICE_MATCHES) \<and>
   fdiv (fabs (fsub 0 100)) 100 = Inr (Fin 1) \<and>
   fmul (Fin 1) 100 = Fin 100 \<and>
   bucket_of (Fin 100) = MAJOR"
proof -
  have 1: "analyze_price (Some 0) 100 = Inr (MATCHED, PRICE_MATCHES, None)"
    by (simp add: analyze_price_def)
  have 2: "main_price (Some 0) 100 = Inr (MATCHED, PRICE_MATCHES)"
    by (simp add: main_price_def)
  have 3: "fdiv (fabs (fsub 0 100)) 100 = Inr (Fin 1)"
    by code_simp
  have 4: "fmul (Fin 1) 100 = Fin 100"
    by code_simp
  have 5: "bucket_of (Fin 100) = MAJOR"
    by (simp add: bucket_of_def d_le_def)
  show ?thesis
    using 1 2 3 4 5 by simp
qed

text \<open>
  C8, as the code has it. The price comparison is total: for every invoice rate and
  every catalog price the three places that compare prices return a result, never
  \<open>ZeroDivisionError\<close>. With a catalog price of 0 no comparison is made: no difference
  and no percentage are recorded, as for a missing rate, and the item is reported as
  matched.
\<close>

theorem price_comparison_total:
  "(\<exists>v. analyze_price (Some r) p = Inr v) \<and>
   (\<exists>v. main_price (Some r) p = Inr v) \<and>
   (\<exists>v. create_match_result pf db_fabric score algorithm confidence = Inr v) \<and>
   analyze_price (Some r) 0 = Inr (MATCHED, PRICE_MATCHES, None) \<and>
   analyze_price (Some r) 0 = analyze_price None 0 \<and>
   main_price (Some r) 0 = Inr (MATCHED, PRICE_MATCHES) \<and>
   main_price (Some r) 0 = main_price None 0 \<and>
   (\<exists>v. create_match_result pf (Some \<lparr>db_material_name = n, default_purchase_price = 0\<rparr>)
           score algorithm confidence = Inr v \<and>
        price_difference v = None \<and> price_difference_percent v = None)"
  by (simp add: analyze_price_def main_price_def create_match_result_def fdiv_def
      Let_def split: option.split)

text \<open>
  C8 as stated fails in its last part: with a catalog price of 0 the percentage is not
  treated as 0. A difference of 0 per cent (equal prices) is reported as an exact match
  with a price analysis whose percentage is 0; a catalog price of 0 gives no price
  analysis at all and the status of an item whose price was not compared.
\<close>

theorem price_zero_catalog_counterexample:
  "analyze_price (Some 5) 0 = Inr (MATCHED, PRICE_MATCHES, None) \<and>
   analyze_price (Some 5) 5
     = Inr (DIFFERENCE EXACT, PRICE_MATCHES,
            Some \<lparr>invoice_rate = 5, database_price = 5, difference = Fin 0,
                  difference_percentage = Fin 0, pa_status = DIFFERENCE EXACT,
                  pa_price_status = PRICE_MATCHES\<rparr>)"
  by (simp add: analyze_price_def fsub_def fabs_def fdiv_def fmul_def round_double_zero
      bucket_of_def price_status_of_def Let_def)

section \<open>Properties of the normaliser and of the index\<close>

text \<open>
  C3 fails on the code: \<open>normalize_string\<close> strips whitespace before it removes the
  hyphens at the ends, so a name that ends in a blank and a hyphen keeps the blank, and
  normalising again removes it.
\<close>

theorem normalize_not_idempotent:
  "normalize_string ''a -'' = ''a '' \<and> normalize_string (normalize_string ''a -'') = ''a''"
  by code_simp

lemma find_append_first:
  "find P (xs @ ys) = (case find P xs of None \<Rightarrow> find P ys | Some x \<Rightarrow> Some x)"
  by (induction xs) auto

lemma find_SomeD: "find P xs = Some x \<Longrightarrow> P x \<and> x \<in> set xs"
  by (induction xs) (auto split: if_splits)

lemma map_of_index_step:
  "map_of (index_step f index) k =
     (if normalize_string (db_material_name f) = k \<and> k \<noteq> [] then Some f else map_of index k)"
  by (auto simp: index_step_def Let_def update_conv)

lemma map_of_fold_index_step:
  "map_of (fold index_step fabrics index) k =
     (case find (\<lambda>f. normalize_string (db_material_name f) = k \<and> k \<noteq> []) (rev fabrics) of
        None \<Rightarrow> map_of index k
      | Some f \<Rightarrow> Some f)"
proof (induction fabrics arbitrary: index)
  case Nil
  then show ?case by simp
next
  case (Cons f fabrics)
  show ?case
    by (simp add: Cons.IH find_append_first map_of_index_step split: option.split)
qed

lemma distinct_fold_index_step:
  "distinct (map fst index) \<Longrightarrow> distinct (map fst (fold index_step fabrics index))"
proof (induction fabrics arbitrary: index)
  case Nil
  then show ?case by simp
next
  case (Cons f fabrics)
  have "distinct (map fst (index_step f index))"
    using Cons.prems by (simp add: index_step_def Let_def distinct_update)
  then show ?case using Cons.IH by simp
qed

lemma keys_index_step:
  "fst ` set (index_step f index) =
     fst ` set index \<union> ({normalize_string (db_material_name f)} - {[]})"
  by (auto simp: index_step_def Let_def dom_update)

lemma keys_fold_index_step:
  "fst ` set (fold index_step fabrics index) =
     fst ` set index \<union> ((\<lambda>f. normalize_string (db_material_name f)) ` set fabrics - {[]})"
proof (induction fabrics arbitrary: index)
  case Nil
  then show ?case by simp
next
  case (Cons f fabrics)
  show ?case
    unfolding fold_simps Cons.IH keys_index_step by auto
qed

lemma map_of_build_index:
  "map_of (build_index fabrics) k =
     find (\<lambda>f. normalize_string (db_material_name f) = k \<and> k \<noteq> []) (rev fabrics)"
  by (simp add: build_index_def map_of_fold_index_step split: option.split)

lemma distinct_build_index: "distinct (map fst (build_index fabrics))"
  using distinct_fold_index_step [of "[]" fabrics] by (simp add: build_index_def)

lemma keys_build_index:
  "fst ` set (build_index fabrics) =
     (\<lambda>f. normalize_string (db_material_name f)) ` set fabrics - {[]}"
  by (simp add: build_index_def keys_fold_index_step)

text \<open>
  C5, as the code has it. The index is a dictionary keyed by the normalised name: it
  holds each key once, and looking a name up gives the last entry of the catalog with
  that normalised name. An entry whose normalised name is empty, or is shared with a
  later entry, is not in the index.
\<close>

theorem build_index_keeps_last:
  "map_of (build_index fabrics) k =
     find (\<lambda>f. normalize_string (db_material_name f) = k \<and> k \<noteq> []) (rev fabrics) \<and>
   distinct (map fst (build_index fabrics))"
  by (simp add: map_of_build_index distinct_build_index)

text \<open>
  C5 as stated fails: of two catalog entries with the same name (two prices of one
  fabric) only the second is in the index.
\<close>

theorem build_index_counterexample:
  "build_index [\<lparr>db_material_name = ''Royal'', default_purchase_price = 549\<rparr>,
                \<lparr>db_material_name = ''Royal'', default_purchase_price = 600\<rparr>]
     = [(''royal'', \<lparr>db_material_name = ''Royal'', default_purchase_price = 600\<rparr>)]"
  by code_simp

section \<open>Properties of the cascade\<close>

lemma threshold_Some: "threshold t res = Inr (Some (f, s)) \<Longrightarrow> t \<le> s"
  by (auto simp: threshold_def split: sum.splits prod.splits if_splits option.splits)

lemma summary_create:
  "summary (create_match_result pf d s a c) = Inr (a, d, s, c)"
  by (simp add: summary_def create_match_result_def fdiv_def Let_def split: option.split)

text \<open>
  C1: \<open>match_fabric\<close> tries exact, prefix-based, substring, fuzzy and semantic matching
  in this order and returns the result of the first strategy that has a candidate, which
  is at or above that strategy's threshold (70, 60, 70, 50; an exact match scores 100).
  An exact candidate is returned as EXACT\_MATCH whatever the later strategies would
  find, fuzzy matching included.
\<close>

theorem strategy_priority:
  "(exact_match index (material_name pf) = Some (f, s) \<longrightarrow>
      s = 100 \<and>
      summary (match_fabric lib index pf) = Inr (''EXACT_MATCH'', Some f, s, ''HIGH'')) \<and>
   (exact_match index (material_name pf) = None \<and>
    prefix_based_match index (material_name pf) = Inr (Some (f, s)) \<longrightarrow>
      70 \<le> s \<and>
      summary (match_fabric lib index pf)
        = Inr (''PREFIX_BASED_MATCH'', Some f, s, if 85 \<le> s then ''HIGH'' else ''MEDIUM'')) \<and>
   (exact_match index (material_name pf) = None \<and>
    prefix_based_match index (material_name pf) = Inr None \<and>
    substring_match index (material_name pf) = Inr (Some (f, s)) \<longrightarrow>
      60 \<le> s \<and>
      summary (match_fabric lib index pf)
        = Inr (''SUBSTRING_MATCH'', Some f, s, if 85 \<le> s then ''HIGH'' else ''MEDIUM'')) \<and>
   (exact_match index (material_name pf) = None \<and>
    prefix_based_match index (material_name pf) = Inr None \<and>
    substring_match index (material_name pf) = Inr None \<and>
    fuzzy_match lib index (material_name pf) = Inr (Some (f, s)) \<longrightarrow>
      70 \<le> s \<and>
      summary (match_fabric lib index pf)
        = Inr (''FUZZY_MATCH'', Some f, s, if 85 \<le> s then ''HIGH'' else ''MEDIUM'')) \<and>
   (exact_match index (material_name pf) = None \<and>
    prefix_based_match index (material_name pf) = Inr None \<and>
    substring_match index (material_name pf) = Inr None \<and>
    fuzzy_match lib index (material_name pf) = Inr None \<and>
    semantic_match index (material_name pf) = Inr (Some (f, s)) \<longrightarrow>
      50 \<le> s \<and>
      summary (match_fabric lib index pf)
        = Inr (''SEMANTIC_MATCH'', Some f, s, if 70 \<le> s then ''MEDIUM'' else ''LOW'')) \<and>
   (exact_match index (material_name pf) = None \<and>
    prefix_based_match index (material_name pf) = Inr None \<and>
    substring_match index (material_name pf) = Inr None \<and>
    fuzzy_match lib index (material_name pf) = Inr None \<and>
    semantic_match index (material_name pf) = Inr None \<longrightarrow>
      summary (match_fabric lib index pf) = Inr (''NO_MATCH'', None, 0, ''NO_MATCH''))"
proof -
  have e: "exact_match index (material_name pf) = Some (f, s) \<Longrightarrow> s = 100"
    by (auto simp: exact_match_def Let_def split: option.splits)
  have p: "prefix_based_match index (material_name pf) = Inr (Some (f, s)) \<Longrightarrow> 70 \<le> s"
    unfolding prefix_based_match_def Let_def by (rule threshold_Some)
  have b: "substring_match index (material_name pf) = Inr (Some (f, s)) \<Longrightarrow> 60 \<le> s"
    unfolding substring_match_def Let_def by (rule threshold_Some)
  have z: "fuzzy_match lib index (material_name pf) = Inr (Some (f, s)) \<Longrightarrow> 70 \<le> s"
    unfolding fuzzy_match_def Let_def by (rule threshold_Some)
  have m: "semantic_match index (material_name pf) = Inr (Some (f, s)) \<Longrightarrow> 50 \<le> s"
    unfolding semantic_match_def Let_def by (rule threshold_Some)
  show ?thesis
    using e p b z m by (simp add: match_fabric_def summary_create)
qed

text \<open>
  The catalog holds ``Royal'' and ``Royale Silk''; the library rates ``royale silk'' as
  identical to anything. For the parsed name ``ROYAL'' the exact candidate and the fuzzy
  candidate differ, and the exact one is returned. For the parsed name ``zzz'' the first
  three strategies find nothing and the fuzzy candidate is returned.
\<close>

theorem strategy_priority_witness:
  "exact_match
     (build_index [\<lparr>db_material_name = ''Royal'', default_purchase_price = 549\<rparr>,
                   \<lparr>db_material_name = ''Royale Silk'', default_purchase_price = 600\<rparr>])
     ''ROYAL''
     = Some (\<lparr>db_material_name = ''Royal'', default_purchase_price = 549\<rparr>, 100) \<and>
   fuzzy_match (only_similar_to ''royale silk'')
     (build_index [\<lparr>db_material_name = ''Royal'', default_purchase_price = 549\<rparr>,
                   \<lparr>db_material_name = ''Royale Silk'', default_purchase_price = 600\<rparr>])
     ''ROYAL''
     = Inr (Some (\<lparr>db_material_name = ''Royale Silk'', default_purchase_price = 600\<rparr>, 100)) \<and>
   summary (match_fabric (only_similar_to ''royale silk'')
     (build_index [\<lparr>db_material_name = ''Royal'', default_purchase_price = 549\<rparr>,
                   \<lparr>db_material_name = ''Royale Silk'', default_purchase_price = 600\<rparr>])
     \<lparr>material_name = ''ROYAL'', quantity = 2, rate = 560, amount = 1120,
      source_invoice = ''inv''\<rparr>)
     = Inr (''EXACT_MATCH'',
            Some \<lparr>db_material_name = ''Royal'', default_purchase_price = 549\<rparr>, 100, ''HIGH'') \<and>
   summary (match_fabric (only_similar_to ''royale silk'')
     (build_index [\<lparr>db_material_name = ''Royale Silk'', default_purchase_price = 600\<rparr>])
     \<lparr>material_name = ''zzz'', quantity = 2, rate = 560, amount = 1120,
      source_invoice = ''inv''\<rparr>)
     = Inr (''FUZZY_MATCH'',
            Some \<lparr>db_material_name = ''Royale Silk'', default_purchase_price = 600\<rparr>, 100,
            ''HIGH'')"
proof -
  let ?a = "\<lparr>db_material_name = ''Royal'', default_purchase_price = 549\<rparr>"
  let ?b = "\<lparr>db_material_name = ''Royale Silk'', default_purchase_price = 600\<rparr>"
  let ?lib = "only_similar_to ''royale silk''"
  let ?p = "\<lparr>material_name = ''ROYAL'', quantity = 2, rate = 560, amount = 1120,
             source_invoice = ''inv''\<rparr>"
  let ?q = "\<lparr>material_name = ''zzz'', quantity = 2, rate = 560, amount = 1120,
             source_invoice = ''inv''\<rparr>"
  have e: "exact_match (build_index [?a, ?b]) ''ROYAL'' = Some (?a, 100)"
    by code_simp
  have z: "fuzzy_match ?lib (build_index [?a, ?b]) ''ROYAL'' = Inr (Some (?b, 100))"
    by code_simp
  have e': "exact_match (build_index [?b]) ''zzz'' = None"
    by code_simp
  have p': "prefix_based_match (build_index [?b]) ''zzz'' = Inr None"
    by code_simp
  have s': "substring_match (build_index [?b]) ''zzz'' = Inr None"
    by code_simp
  have z': "fuzzy_match ?lib (build_index [?b]) ''zzz'' = Inr (Some (?b, 100))"
    by code_simp
  have 1: "summary (match_fabric ?lib (build_index [?a, ?b]) ?p)
      = Inr (''EXACT_MATCH'', Some ?a, 100, ''HIGH'')"
    using strategy_priority [of "build_index [?a, ?b]" ?p ?a 100 ?lib] e by simp
  have 2: "summary (match_fabric ?lib (build_index [?b]) ?q)
      = Inr (''FUZZY_MATCH'', Some ?b, 100, ''HIGH'')"
    using strategy_priority [of "build_index [?b]" ?q ?b 100 ?lib] e' p' s' z' by simp
  show ?thesis
    using e z 1 2 by blast
qed

text \<open>
  C4, as the code has it. A catalog entry whose normalised name is not empty and is left
  unchanged by normalising it again is found by exact matching when that normalised name
  is the query: the result is EXACT\_MATCH with score 100 and confidence HIGH, for an
  entry of the catalog with the same normalised name.
\<close>

theorem exact_self_match:
  "e \<in> set fabrics \<Longrightarrow>
   normalize_string (db_material_name e) \<noteq> [] \<Longrightarrow>
   normalize_string (normalize_string (db_material_name e)) = normalize_string (db_material_name e) \<Longrightarrow>
   material_name pf = normalize_string (db_material_name e) \<Longrightarrow>
   \<exists>f. f \<in> set fabrics \<and>
       normalize_string (db_material_name f) = normalize_string (db_material_name e) \<and>
       summary (match_fabric lib (build_index fabrics) pf)
         = Inr (''EXACT_MATCH'', Some f, 100, ''HIGH'')"
proof -
  assume e: "e \<in> set fabrics"
    and ne: "normalize_string (db_material_name e) \<noteq> []"
    and idem: "normalize_string (normalize_string (db_material_name e))
                = normalize_string (db_material_name e)"
    and pf: "material_name pf = normalize_string (db_material_name e)"
  let ?k = "normalize_string (db_material_name e)"
  let ?P = "\<lambda>f. normalize_string (db_material_name f) = ?k \<and> ?k \<noteq> []"
  have "find ?P (rev fabrics) \<noteq> None"
    using e ne by (auto simp: find_None_iff)
  then obtain f where f: "find ?P (rev fabrics) = Some f"
    by blast
  then have fin: "f \<in> set fabrics" and fk: "normalize_string (db_material_name f) = ?k"
    using find_SomeD [of ?P "rev fabrics" f] by auto
  have "exact_match (build_index fabrics) (material_name pf) = Some (f, 100)"
    using f by (simp add: exact_match_def pf idem map_of_build_index)
  then have "summary (match_fabric lib (build_index fabrics) pf)
      = Inr (''EXACT_MATCH'', Some f, 100, ''HIGH'')"
    by (simp add: match_fabric_def summary_create)
  then show ?thesis
    using fin fk by blast
qed

theorem exact_self_match_witness:
  "\<exists>f. summary (match_fabric (only_similar_to [])
          (build_index [\<lparr>db_material_name = ''A - NEW ROYAL FABRIC'', default_purchase_price = 549\<rparr>])
          \<lparr>material_name = ''a - new royal fabric'', quantity = 2, rate = 560, amount = 1120,
           source_invoice = ''inv''\<rparr>)
        = Inr (''EXACT_MATCH'', Some f, 100, ''HIGH'')"
proof -
  let ?e = "\<lparr>db_material_name = ''A - NEW ROYAL FABRIC'', default_purchase_price = 549\<rparr>"
  let ?p = "\<lparr>material_name = ''a - new royal fabric'', quantity = 2, rate = 560,
             amount = 1120, source_invoice = ''inv''\<rparr>"
  have n: "normalize_string ''A - NEW ROYAL FABRIC'' = ''a - new royal fabric''"
    by code_simp
  have i: "normalize_string ''a - new royal fabric'' = ''a - new royal fabric''"
    by code_simp
  show ?thesis
    using exact_self_match [of ?e "[?e]" ?p "only_similar_to []"] n i by auto
qed

text \<open>
  C4 as stated fails for a catalog entry whose name normalises to the empty string (a
  name that is only a one- or two-digit number): \<open>_build_index\<close> leaves such an entry
  out, and the query finds nothing.
\<close>

theorem exact_self_match_counterexample:
  "summary (match_fabric (only_similar_to [])
     (build_index [\<lparr>db_material_name = ''12'', default_purchase_price = 549\<rparr>])
     \<lparr>material_name = normalize_string ''12'', quantity = 2, rate = 560, amount = 1120,
      source_invoice = ''inv''\<rparr>)
   = Inr (''NO_MATCH'', None, 0, ''NO_MATCH'')"
  by code_simp

section \<open>Properties of the substring strategy\<close>

lemma contains_Nil [simp]: "contains [] s"
  by (cases s) simp_all

lemma stop_filter:
  "{token \<in> D. token \<notin> S} = D - S"
  by auto

lemma substring_body_fold:
  assumes "db_name \<noteq> []" and "finite tokens"
  shows "substring_body name tokens db_name fabric b =
     Inr (fold (improve fabric) (candidate_scores name tokens db_name) b)"
proof -
  let ?D = "set (tokenize_string db_name) - set substring_stop_tokens"
  have fin: "finite (tokens \<union> ?D)"
    using assms(2) by simp
  have pos: "card (tokens \<inter> ?D) \<noteq> 0 \<Longrightarrow> card (tokens \<union> ?D) \<noteq> 0"
    using fin by (metis card_0_eq inf_bot_right sup_eq_bot_iff card.empty)
  have empty: "tokens = {} \<or> set (tokenize_string db_name) = {} \<Longrightarrow> card (tokens \<inter> ?D) = 0"
    by auto
  have name: "contains db_name name \<Longrightarrow> \<not> contains name db_name \<Longrightarrow> name \<noteq> []"
    by auto
  show ?thesis
    using assms pos empty name
    by (auto simp: substring_body_def candidate_scores_def coverage_score_def overlap_score_def
        truediv_def Let_def stop_filter)
qed

lemma for_items_fold:
  assumes "\<And>k f b. (k, f) \<in> set index \<Longrightarrow> body k f b = Inr (step k f b)"
  shows "for_items body index b = Inr (fold (\<lambda>(k, f). step k f) index b)"
  using assms
proof (induction index arbitrary: b)
  case Nil
  then show ?case by simp
next
  case (Cons kf index)
  obtain k f where kf: "kf = (k, f)" by (cases kf)
  have 1: "body k f b = Inr (step k f b)"
    using Cons.prems by (simp add: kf)
  have 2: "for_items body index (step k f b) = Inr (fold (\<lambda>(k, f). step k f) index (step k f b))"
    using Cons.prems by (intro Cons.IH) simp
  show ?case
    using 1 2 by (simp add: kf)
qed

lemma fold_concat_map:
  "fold g (concat (map h xs)) b = fold (\<lambda>x. fold g (h x)) xs b"
  by (induction xs arbitrary: b) auto

lemma fold_map_pair:
  "fold (\<lambda>(f, s). improve f s) (map (\<lambda>s. (fabric, s)) ss) b = fold (improve fabric) ss b"
  by (induction ss arbitrary: b) auto

lemma substring_loop:
  assumes "\<forall>(k, f) \<in> set index. k \<noteq> []"
  shows "for_items (substring_body (normalize_string p) (set (tokenize_string p))) index b =
     Inr (fold (\<lambda>(f, s). improve f s) (candidates index p) b)"
proof -
  have "for_items (substring_body (normalize_string p) (set (tokenize_string p))) index b =
      Inr (fold (\<lambda>(k, f). fold (improve f)
             (candidate_scores (normalize_string p) (set (tokenize_string p)) k)) index b)"
    using assms by (intro for_items_fold substring_body_fold) auto
  also have "fold (\<lambda>(k, f). fold (improve f)
             (candidate_scores (normalize_string p) (set (tokenize_string p)) k)) index b
      = fold (\<lambda>(f, s). improve f s) (candidates index p) b"
    unfolding candidates_def fold_concat_map
    by (rule arg_cong [where f = "\<lambda>g. fold g index b"]) (auto simp: fold_map_pair fun_eq_iff)
  finally show ?thesis .
qed

lemma fold_improve:
  "fold (\<lambda>(f, s). improve f s) cs (m0, s0) = (m, s) \<Longrightarrow>
     s0 \<le> s \<and> (\<forall>(g, t) \<in> set cs. t \<le> s) \<and>
     ((m, s) = (m0, s0) \<or> (\<exists>f. m = Some f \<and> (f, s) \<in> set cs))"
proof (induction cs arbitrary: m0 s0)
  case Nil
  then show ?case by simp
next
  case (Cons c cs)
  obtain f x where c: "c = (f, x)" by (cases c)
  obtain m1 s1 where st: "improve f x (m0, s0) = (m1, s1)" by (cases "improve f x (m0, s0)")
  have ih: "s1 \<le> s \<and> (\<forall>(g, t) \<in> set cs. t \<le> s) \<and>
     ((m, s) = (m1, s1) \<or> (\<exists>f. m = Some f \<and> (f, s) \<in> set cs))"
    using Cons.prems Cons.IH [of m1 s1] by (simp add: c st)
  have s1: "s0 \<le> s1 \<and> x \<le> s1 \<and> ((m1, s1) = (m0, s0) \<or> (m1, s1) = (Some f, x))"
    using st by (auto simp: improve_def split: if_splits)
  show ?case
    using ih s1 by (auto simp: c)
qed


lemma keys_nonempty: "\<forall>(k, f) \<in> set (build_index fabrics). k \<noteq> []"
  using keys_build_index [of fabrics] by (metis (mono_tags, lifting) Diff_iff case_prodI2 fst_conv image_eqI insertI1)

text \<open>
  C7: on a built index \<open>substring_match\<close> returns the candidate with the best score
  among the candidates by containment (\<open>min(95, 80 + coverage * 20)\<close>) and by token
  overlap (\<open>overlap / union * 90\<close>), if that score is at least 60, and nothing if every
  candidate scores below 60. When the cascade returns this candidate the confidence is
  HIGH for a score of at least 85 and MEDIUM otherwise.
\<close>

theorem substring_strategy:
  "\<exists>r. substring_match (build_index fabrics) p = Inr r \<and>
     (case r of
        Some (f, s) \<Rightarrow>
          (f, s) \<in> set (candidates (build_index fabrics) p) \<and>
          (\<forall>(g, t) \<in> set (candidates (build_index fabrics) p). t \<le> s) \<and> 60 \<le> s \<and>
          (exact_match (build_index fabrics) (material_name pf) = None \<and>
           prefix_based_match (build_index fabrics) (material_name pf) = Inr None \<and>
           material_name pf = p \<longrightarrow>
             summary (match_fabric lib (build_index fabrics) pf)
               = Inr (''SUBSTRING_MATCH'', Some f, s, if 85 \<le> s then ''HIGH'' else ''MEDIUM''))
      | None \<Rightarrow> (\<forall>(g, t) \<in> set (candidates (build_index fabrics) p). t < 60))"
proof -
  let ?I = "build_index fabrics"
  obtain m s where ms: "fold (\<lambda>(f, s). improve f s) (candidates ?I p) (None, 0) = (m, s)"
    by (cases "fold (\<lambda>(f, s). improve f s) (candidates ?I p) (None, 0)")
  have loop: "for_items (substring_body (normalize_string p) (set (tokenize_string p))) ?I (None, 0)
      = Inr (m, s)"
    using substring_loop [where index = ?I and p = p and b = "(None, 0)"] keys_nonempty [of fabrics] ms
    by simp
  have inv: "0 \<le> s \<and> (\<forall>(g, t) \<in> set (candidates ?I p). t \<le> s) \<and>
     ((m, s) = (None, 0) \<or> (\<exists>f. m = Some f \<and> (f, s) \<in> set (candidates ?I p)))"
    using fold_improve [OF ms] .
  show ?thesis
  proof (cases "60 \<le> s")
    case True
    then obtain f where f: "m = Some f" "(f, s) \<in> set (candidates ?I p)"
      using inv by auto
    have r: "substring_match ?I p = Inr (Some (f, s))"
      using True f by (simp add: substring_match_def Let_def loop threshold_def)
    show ?thesis
      using r f True inv by (auto simp: match_fabric_def summary_create)
  next
    case False
    have r: "substring_match ?I p = Inr None"
      using False by (simp add: substring_match_def Let_def loop threshold_def)
    show ?thesis
      using r False inv by fastforce
  qed
qed


text \<open>
  ``Royal'' against the catalog name ``Royal X1'': containment scores
  \<open>80 + 5/8 * 20 = 92.5\<close> (HIGH), the one shared token of two scores 45. ``silk royal''
  against ``Royal Silk X1'': no containment, two shared tokens of three score 60 (MEDIUM).
\<close>

theorem substring_strategy_witness:
  "substring_match (build_index [\<lparr>db_material_name = ''Royal X1'', default_purchase_price = 600\<rparr>])
     ''Royal''
     = Inr (Some (\<lparr>db_material_name = ''Royal X1'', default_purchase_price = 600\<rparr>, 185 / 2)) \<and>
   summary (match_fabric (only_similar_to [])
     (build_index [\<lparr>db_material_name = ''Royal X1'', default_purchase_price = 600\<rparr>])
     \<lparr>material_name = ''Royal'', quantity = 2, rate = 560, amount = 1120,
      source_invoice = ''inv''\<rparr>)
     = Inr (''SUBSTRING_MATCH'',
            Some \<lparr>db_material_name = ''Royal X1'', default_purchase_price = 600\<rparr>, 185 / 2,
            ''HIGH'') \<and>
   summary (match_fabric (only_similar_to [])
     (build_index [\<lparr>db_material_name = ''Royal Silk X1'', default_purchase_price = 600\<rparr>])
     \<lparr>material_name = ''silk royal'', quantity = 2, rate = 560, amount = 1120,
      source_invoice = ''inv''\<rparr>)
     = Inr (''SUBSTRING_MATCH'',
            Some \<lparr>db_material_name = ''Royal Silk X1'', default_purchase_price = 600\<rparr>, 60,
            ''MEDIUM'')"
proof -
  let ?a = "\<lparr>db_material_name = ''Royal X1'', default_purchase_price = 600\<rparr>"
  let ?b = "\<lparr>db_material_name = ''Royal Silk X1'', default_purchase_price = 600\<rparr>"
  let ?p = "\<lparr>material_name = ''Royal'', quantity = 2, rate = 560, amount = 1120,
             source_invoice = ''inv''\<rparr>"
  let ?q = "\<lparr>material_name = ''silk royal'', quantity = 2, rate = 560, amount = 1120,
             source_invoice = ''inv''\<rparr>"
  have ca: "candidates (build_index [?a]) ''Royal'' = [(?a, 185 / 2), (?a, 45)]"
    by code_simp
  have ea: "exact_match (build_index [?a]) ''Royal'' = None"
    by code_simp
  have pa: "prefix_based_match (build_index [?a]) ''Royal'' = Inr None"
    by code_simp
  have cb: "candidates (build_index [?b]) ''silk royal'' = [(?b, 60)]"
    by code_simp
  have eb: "exact_match (build_index [?b]) ''silk royal'' = None"
    by code_simp
  have pb: "prefix_based_match (build_index [?b]) ''silk royal'' = Inr None"
    by code_simp
  obtain r where r: "substring_match (build_index [?a]) ''Royal'' = Inr r"
    and rc: "case r of
        Some (f, s) \<Rightarrow>
          (f, s) \<in> set (candidates (build_index [?a]) ''Royal'') \<and>
          (\<forall>(g, t) \<in> set (candidates (build_index [?a]) ''Royal''). t \<le> s) \<and> 60 \<le> s \<and>
          (exact_match (build_index [?a]) (material_name ?p) = None \<and>
           prefix_based_match (build_index [?a]) (material_name ?p) = Inr None \<and>
           material_name ?p = ''Royal'' \<longrightarrow>
             summary (match_fabric (only_similar_to []) (build_index [?a]) ?p)
               = Inr (''SUBSTRING_MATCH'', Some f, s, if 85 \<le> s then ''HIGH'' else ''MEDIUM''))
      | None \<Rightarrow> (\<forall>(g, t) \<in> set (candidates (build_index [?a]) ''Royal''). t < 60)"
    using substring_strategy [of "[?a]" "''Royal''" ?p "only_similar_to []"] by blast
  have 1: "r = Some (?a, 185 / 2)"
    using rc by (cases r) (auto simp: ca)
  have 2: "summary (match_fabric (only_similar_to []) (build_index [?a]) ?p)
      = Inr (''SUBSTRING_MATCH'', Some ?a, 185 / 2, ''HIGH'')"
    using rc ea pa by (simp add: 1)
  obtain r' where rc': "case r' of
        Some (f, s) \<Rightarrow>
          (f, s) \<in> set (candidates (build_index [?b]) ''silk royal'') \<and>
          (\<forall>(g, t) \<in> set (candidates (build_index [?b]) ''silk royal''). t \<le> s) \<and> 60 \<le> s \<and>
          (exact_match (build_index [?b]) (material_name ?q) = None \<and>
           prefix_based_match (build_index [?b]) (material_name ?q) = Inr None \<and>
           material_name ?q = ''silk royal'' \<longrightarrow>
             summary (match_fabric (only_similar_to []) (build_index [?b]) ?q)
               = Inr (''SUBSTRING_MATCH'', Some f, s, if 85 \<le> s then ''HIGH'' else ''MEDIUM''))
      | None \<Rightarrow> (\<forall>(g, t) \<in> set (candidates (build_index [?b]) ''silk royal''). t < 60)"
    using substring_strategy [of "[?b]" "''silk royal''" ?q "only_similar_to []"] by blast
  have 3: "r' = Some (?b, 60)"
    using rc' by (cases r') (auto simp: cb)
  have 4: "summary (match_fabric (only_similar_to []) (build_index [?b]) ?q)
      = Inr (''SUBSTRING_MATCH'', Some ?b, 60, ''MEDIUM'')"
    using rc' eb pb by (simp add: 3)
  show ?thesis
    using r 1 2 4 by simp
qed

section \<open>The order of the catalog\<close>





























end
